theory Spec2Isabelle
  imports Complex_Main
begin

section \<open>Assignments, submissions and quiz auto-grading (routes/assignments.js)\<close>

text \<open>
  A shallow embedding of the assignment routes of the TTLS backend: assignment creation and
  update, the quiz auto-grader, student submission and resubmission, manual grading and the
  per-assignment statistics.

  Conventions of the embedding.
  \<^item> A JavaScript Number is an exact rational (\<open>rat\<close>): NaN and the infinities are not
    represented, and arithmetic is exact. The one place where the rounding error of a double
    decides a result, \<open>Math.round\<close> at a value halfway between two integers, is a parameter.
  \<^item> A JavaScript string is a \<open>string\<close>: a list of code units below 256, the Latin-1 range
    of Unicode. On these \<open>toLowerCase\<close> and \<open>trim\<close> are the functions of JavaScript; strings
    with code units from 256 on are outside the type.
  \<^item> A property that may be \<open>undefined\<close> is an \<open>option\<close>; request payloads are typed
    (a JSON field holds a value of the type the handler expects, or is absent).
  \<^item> A MongoDB ObjectId is a natural number; \<open>toString\<close> on ids is injective, so the
    comparison of two id strings is equality of the ids.
  \<^item> The collections are lists held in an explicit state; every handler takes the state
    and returns the HTTP response together with the new state.
  \<^item> A handler starts after the middleware \<open>protect\<close>: the request carries the
    authenticated user. The role check of \<open>authorize\<close> is part of the handler.
  \<^item> A Mongoose schema acts where a document is created or saved: required paths are
    validated, defaults are filled in, and a failure is the exception that the handler
    answers with 500.
  \<^item> Record fields carry a prefix of their record (\<open>q_\<close>, \<open>as_\<close>, \<open>s_\<close>, ...), since the
    schemas share field names.
\<close>

subsection \<open>JavaScript string helpers\<close>

text \<open>
  \<open>String.prototype.toLowerCase\<close> on Latin-1: the capitals are A to Z and U+00C0 to U+00DE
  without the multiplication sign U+00D7, each mapped to the code unit 32 above it.
\<close>

definition upper_chars :: string where
  "upper_chars = ''ABCDEFGHIJKLMNOPQRSTUVWXYZ'' @
      [CHR 0xC0, CHR 0xC1, CHR 0xC2, CHR 0xC3, CHR 0xC4, CHR 0xC5, CHR 0xC6, CHR 0xC7,
       CHR 0xC8, CHR 0xC9, CHR 0xCA, CHR 0xCB, CHR 0xCC, CHR 0xCD, CHR 0xCE, CHR 0xCF,
       CHR 0xD0, CHR 0xD1, CHR 0xD2, CHR 0xD3, CHR 0xD4, CHR 0xD5, CHR 0xD6, CHR 0xD8,
       CHR 0xD9, CHR 0xDA, CHR 0xDB, CHR 0xDC, CHR 0xDD, CHR 0xDE]"

definition lower_chars :: string where
  "lower_chars = ''abcdefghijklmnopqrstuvwxyz'' @
      [CHR 0xE0, CHR 0xE1, CHR 0xE2, CHR 0xE3, CHR 0xE4, CHR 0xE5, CHR 0xE6, CHR 0xE7,
       CHR 0xE8, CHR 0xE9, CHR 0xEA, CHR 0xEB, CHR 0xEC, CHR 0xED, CHR 0xEE, CHR 0xEF,
       CHR 0xF0, CHR 0xF1, CHR 0xF2, CHR 0xF3, CHR 0xF4, CHR 0xF5, CHR 0xF6, CHR 0xF8,
       CHR 0xF9, CHR 0xFA, CHR 0xFB, CHR 0xFC, CHR 0xFD, CHR 0xFE]"

definition lowerChar :: "char \<Rightarrow> char" where
  "lowerChar c = (case map_of (zip upper_chars lower_chars) c of Some d \<Rightarrow> d | None \<Rightarrow> c)"

definition toLowerCase :: "string \<Rightarrow> string" where
  "toLowerCase s = map lowerChar s"

text \<open>
  \<open>String.prototype.trim\<close> strips white space and line terminators from both ends; below
  256 these are U+0009 to U+000D, the space and the no-break space U+00A0.
\<close>

definition isWhiteSpace :: "char \<Rightarrow> bool" where
  "isWhiteSpace c \<longleftrightarrow>
     c \<in> set [CHR 0x09, CHR 0x0A, CHR 0x0B, CHR 0x0C, CHR 0x0D, CHR 0x20, CHR 0xA0]"

definition trim :: "string \<Rightarrow> string" where
  "trim s = rev (dropWhile isWhiteSpace (rev (dropWhile isWhiteSpace s)))"

text \<open>\<open>x || d\<close> on a possibly undefined string: the empty string is falsy.\<close>

definition strOr :: "string option \<Rightarrow> string \<Rightarrow> string" where
  "strOr x d = (case x of None \<Rightarrow> d | Some s \<Rightarrow> if s = [] then d else s)"

text \<open>\<open>x || d\<close> on a possibly undefined number: zero is falsy.\<close>

definition numOr :: "rat option \<Rightarrow> rat \<Rightarrow> rat" where
  "numOr x d = (case x of None \<Rightarrow> d | Some n \<Rightarrow> if n = 0 then d else n)"

text \<open>\<open>String(x)\<close> on a possibly undefined string.\<close>

definition String :: "string option \<Rightarrow> string" where
  "String x = (case x of None \<Rightarrow> ''undefined'' | Some s \<Rightarrow> s)"

text \<open>\<open>Array.prototype.find\<close>: the first element that satisfies the predicate.\<close>

fun find_first :: "('a \<Rightarrow> bool) \<Rightarrow> 'a list \<Rightarrow> 'a option" where
  "find_first P [] = None"
| "find_first P (x # xs) = (if P x then Some x else find_first P xs)"

subsection \<open>Data model (models/QuizQuestion.js, models/Assignment.js, models/Submission.js)\<close>

type_synonym oid = nat

datatype question_type = MultipleChoice | Identification | Enumeration | Essay | FileUpload

datatype assignment_type = MiniProject | MajorProject | Quiz | AssignmentT | EssayT

record stored_file =
  sf_filename :: string
  sf_fileType :: string
  sf_url :: "string option"
  sf_public_id :: "string option"

record quiz_question =
  q_id :: oid
  q_question :: string
  q_type :: question_type
  q_options :: "string list"
  q_correctAnswer :: "string option"
  q_correctAnswers :: "string list"
  q_points :: rat
  q_order :: int

record assignment =
  as_id :: oid
  as_title :: string
  as_description :: "string option"
  as_instructions :: "string option"
  as_lesson :: "oid option"
  as_type :: assignment_type
  as_dueDate :: "nat option"
  as_createdBy :: oid
  as_attachments :: "stored_file list"
  as_questions :: "quiz_question list"
  as_totalPoints :: rat
  as_allowAutomaticGrading :: bool
  as_allowResubmission :: bool

text \<open>
  An answer object of the request body (\<open>JSON.parse(req.body.answers)\<close>); the submit
  handler overwrites \<open>isCorrect\<close> and \<open>points\<close> when it grades.
\<close>

record raw_answer =
  ra_questionId :: "oid option"
  ra_answer :: "string option"
  ra_answers :: "string list option"
  ra_type :: "string option"
  ra_fileIndex :: "nat option"
  ra_files :: "stored_file list option"
  ra_isCorrect :: "bool option"
  ra_points :: "rat option"
  ra_feedback :: "string option"

text \<open>The per-question record that \<open>autoGradeQuiz\<close> pushes; \<open>isCorrect = null\<close> is \<open>None\<close>.\<close>

record graded_answer =
  g_questionId :: oid
  g_question :: string
  g_type :: question_type
  g_answer :: string
  g_answers :: "string list"
  g_isCorrect :: "bool option"
  g_points :: rat
  g_maxPoints :: rat

record grading_result =
  totalScore :: rat
  totalPoints :: rat
  gradedAnswers :: "graded_answer list"

subsection \<open>The auto-grader\<close>

text \<open>\<open>answers.find(a => a.questionId && a.questionId.toString() === question._id.toString())\<close>\<close>

definition findAnswer :: "raw_answer list \<Rightarrow> quiz_question \<Rightarrow> raw_answer option" where
  "findAnswer answers q = find_first (\<lambda>a. ra_questionId a = Some (q_id q)) answers"

text \<open>\<open>answer?.answer || ''\<close> and \<open>answer?.answers || []\<close>\<close>

definition answerText :: "raw_answer option \<Rightarrow> string" where
  "answerText answer = (case answer of None \<Rightarrow> [] | Some a \<Rightarrow> strOr (ra_answer a) [])"

definition answerList :: "raw_answer option \<Rightarrow> string list" where
  "answerList answer =
     (case answer of None \<Rightarrow> [] | Some a \<Rightarrow> (case ra_answers a of None \<Rightarrow> [] | Some xs \<Rightarrow> xs))"

text \<open>\<open>question.points || 1\<close>\<close>

definition pointsOr1 :: "quiz_question \<Rightarrow> rat" where
  "pointsOr1 q = (if q_points q = 0 then 1 else q_points q)"

text \<open>
  The branch of the loop body that decides \<open>isCorrect\<close> and \<open>points\<close> for one question,
  given the answer found for it.
\<close>

definition gradeOne :: "quiz_question \<Rightarrow> raw_answer option \<Rightarrow> bool option \<times> rat" where
  "gradeOne q answer =
     (if q_type q = Essay \<or> q_type q = FileUpload then (None, 0)
      else if q_type q = MultipleChoice then
        (let correctAnswer = q_correctAnswer q;
             studentAnswer = answerText answer;
             isCorrect = (trim (toLowerCase (String (Some studentAnswer)))
                          = trim (toLowerCase (String correctAnswer)))
         in (Some isCorrect, if isCorrect then pointsOr1 q else 0))
      else if q_type q = Identification then
        (let correctAnswer = trim (toLowerCase (strOr (q_correctAnswer q) []));
             studentAnswer = trim (toLowerCase (answerText answer));
             isCorrect = (studentAnswer = correctAnswer)
         in (Some isCorrect, if isCorrect then pointsOr1 q else 0))
      else
        (let correctAnswers = map (\<lambda>a. trim (toLowerCase a)) (q_correctAnswers q);
             studentAnswers = map (\<lambda>a. trim (toLowerCase a)) (answerList answer);
             correctCount = length (filter (\<lambda>sa. sa \<in> set correctAnswers) studentAnswers);
             totalCorrect = length correctAnswers
         in if totalCorrect > 0
            then (Some (correctCount = totalCorrect \<and> length studentAnswers = totalCorrect),
                  (of_nat correctCount / of_nat totalCorrect) * pointsOr1 q)
            else (Some False, 0)))"

text \<open>One iteration of \<open>assignment.questions.forEach\<close>: the record pushed for a question.\<close>

definition gradeQuestion :: "raw_answer list \<Rightarrow> quiz_question \<Rightarrow> graded_answer" where
  "gradeQuestion answers q =
     (let answer = findAnswer answers q;
          r = gradeOne q answer
      in \<lparr> g_questionId = q_id q, g_question = q_question q, g_type = q_type q,
           g_answer = answerText answer, g_answers = answerList answer,
           g_isCorrect = fst r, g_points = snd r, g_maxPoints = pointsOr1 q \<rparr>)"

definition gradeStep :: "raw_answer list \<Rightarrow> grading_result \<Rightarrow> quiz_question \<Rightarrow> grading_result" where
  "gradeStep answers acc q =
     (let g = gradeQuestion answers q
      in \<lparr> totalScore = totalScore acc + g_points g,
           totalPoints = totalPoints acc + pointsOr1 q,
           gradedAnswers = gradedAnswers acc @ [g] \<rparr>)"

definition autoGradeQuiz :: "assignment \<Rightarrow> raw_answer list \<Rightarrow> grading_result" where
  "autoGradeQuiz a answers =
     (if as_questions a = [] then \<lparr> totalScore = 0, totalPoints = 0, gradedAnswers = [] \<rparr>
      else foldl (gradeStep answers)
             \<lparr> totalScore = 0, totalPoints = 0, gradedAnswers = [] \<rparr> (as_questions a))"

subsection \<open>Requests, responses and the database state\<close>

datatype role = Student | Teacher | Admin

record user =
  u_id :: oid
  u_role :: role

text \<open>
  A file received by multer: \<open>buffer\<close> tells whether the file carries a memory buffer,
  \<open>path\<close> is its path on disk when there is one.
\<close>

record req_file =
  originalname :: string
  mimetype :: string
  buffer :: bool
  path :: "string option"

text \<open>
  What a handler reads from outside the database: whether Cloudinary is configured, the
  outcome of \<open>uploadBufferToCloudinary\<close> for a folder and a file (\<open>None\<close> when the promise
  rejects, otherwise \<open>secure_url\<close> and \<open>public_id\<close>), and the clock (\<open>new Date()\<close>; the
  reads of the clock within one request return the same instant).
\<close>

record env =
  hasCloudinary :: bool
  cloudUpload :: "string \<Rightarrow> req_file \<Rightarrow> (string \<times> string) option"
  now :: nat

text \<open>
  A response: \<open>Reply status data\<close> for \<open>{success: true, data}\<close>, \<open>Error status\<close> for
  \<open>{success: false, message}\<close>.
\<close>

datatype 'a response = Reply nat 'a | Error nat

definition replyData :: "'a response \<Rightarrow> 'a option" where
  "replyData r = (case r of Reply c d \<Rightarrow> Some d | Error c \<Rightarrow> None)"

text \<open>
  A body field that carries a JSON list (\<open>questions\<close>, \<open>answers\<close>):
  \<^item> \<open>Absent\<close>: the field is undefined or the empty string (falsy);
  \<^item> \<open>InvalidJson\<close>: a string on which \<open>JSON.parse\<close> throws;
  \<^item> \<open>JsonList xs\<close>: an array of objects, given as JSON text or already parsed;
  \<^item> \<open>JsonObject x\<close>: a single object that is not inside an array.
\<close>

datatype 'a payload = Absent | InvalidJson | JsonList "'a list" | JsonObject 'a

text \<open>An element of the \<open>questions\<close> payload: every property may be missing.\<close>

record raw_question =
  rq_question :: "string option"
  rq_type :: "question_type option"
  rq_options :: "string list option"
  rq_correctAnswer :: "string option"
  rq_correctAnswers :: "string list option"
  rq_points :: "rat option"
  rq_order :: "int option"

text \<open>An embedded answer as stored (AnswerSchema).\<close>

record answer =
  a_questionId :: oid
  a_answer :: "string option"
  a_answers :: "string list"
  a_files :: "stored_file list"
  a_isCorrect :: "bool option"
  a_points :: "rat option"
  a_feedback :: "string option"

record submission =
  s_id :: oid
  s_assignment :: oid
  s_student :: oid
  s_content :: "string option"
  s_answers :: "answer list"
  s_files :: "stored_file list"
  s_grade :: "rat option"
  s_totalPoints :: "rat option"
  s_feedback :: "string option"
  s_isGraded :: bool
  s_autoGraded :: bool
  s_submittedAt :: "nat option"
  s_gradedAt :: "nat option"
  s_resubmitted :: bool
  s_resubmittedAt :: "nat option"
  s_previousContent :: "string option"
  s_previousAnswers :: "answer list"
  s_previousFiles :: "stored_file list"

record db =
  assignments :: "assignment list"
  submissions :: "submission list"
  nextId :: oid

definition findById :: "assignment list \<Rightarrow> oid \<Rightarrow> assignment option" where
  "findById xs i = find_first (\<lambda>a. as_id a = i) xs"

text \<open>\<open>doc.save()\<close>: the stored document with the same \<open>_id\<close> is replaced.\<close>

definition saveAssignment :: "assignment \<Rightarrow> assignment list \<Rightarrow> assignment list" where
  "saveAssignment a xs = map (\<lambda>x. if as_id x = as_id a then a else x) xs"

definition saveSubmission :: "submission \<Rightarrow> submission list \<Rightarrow> submission list" where
  "saveSubmission s xs = map (\<lambda>x. if s_id x = s_id s then s else x) xs"

text \<open>The middleware \<open>authorize('teacher','admin')\<close>.\<close>

definition authorize :: "role list \<Rightarrow> user \<Rightarrow> bool" where
  "authorize roles u \<longleftrightarrow> u_role u \<in> set roles"

subsection \<open>Attachments\<close>

definition fileMeta :: "req_file \<Rightarrow> stored_file" where
  "fileMeta f = \<lparr> sf_filename = originalname f, sf_fileType = mimetype f,
                  sf_url = path f, sf_public_id = None \<rparr>"

definition uploadedFile :: "req_file \<Rightarrow> string \<times> string \<Rightarrow> stored_file" where
  "uploadedFile f up = \<lparr> sf_filename = originalname f, sf_fileType = mimetype f,
                         sf_url = Some (fst up), sf_public_id = Some (snd up) \<rparr>"

text \<open>
  The loop \<open>for (const f of req.files)\<close> of the Cloudinary branch: a file without a buffer
  is skipped, a rejected upload ends the request (\<open>None\<close>).
\<close>

fun uploadAll :: "env \<Rightarrow> string \<Rightarrow> req_file list \<Rightarrow> stored_file list \<Rightarrow> stored_file list option" where
  "uploadAll e folder [] saved = Some saved"
| "uploadAll e folder (f # fs) saved =
     (if \<not> buffer f then uploadAll e folder fs saved
      else case cloudUpload e folder f of
             None \<Rightarrow> None
           | Some up \<Rightarrow> uploadAll e folder fs (saved @ [uploadedFile f up]))"

definition saveFiles :: "env \<Rightarrow> string \<Rightarrow> req_file list \<Rightarrow> stored_file list \<Rightarrow> stored_file list option" where
  "saveFiles e folder files saved =
     (if hasCloudinary e then uploadAll e folder files saved
      else Some (saved @ map fileMeta files))"

subsection \<open>Question normalisation and schema casting\<close>

text \<open>The object built by \<open>parsedQuestions.map((q, index) => ...)\<close>.\<close>

definition normalizeQuestion :: "raw_question \<Rightarrow> nat \<Rightarrow> raw_question" where
  "normalizeQuestion q index =
     \<lparr> rq_question = Some (strOr (rq_question q) []),
       rq_type = Some (case rq_type q of None \<Rightarrow> MultipleChoice | Some t \<Rightarrow> t),
       rq_options = Some (case rq_options q of None \<Rightarrow> [] | Some xs \<Rightarrow> xs),
       rq_correctAnswer = Some (strOr (rq_correctAnswer q) []),
       rq_correctAnswers = Some (case rq_correctAnswers q of None \<Rightarrow> [] | Some xs \<Rightarrow> xs),
       rq_points = Some (numOr (rq_points q) 1),
       rq_order = Some (case rq_order q of None \<Rightarrow> int index | Some i \<Rightarrow> i) \<rparr>"

definition normalizeQuestions :: "raw_question list \<Rightarrow> raw_question list" where
  "normalizeQuestions qs = map (\<lambda>(q, index). normalizeQuestion q index) (zip qs [0..<length qs])"

text \<open>\<open>parsedQuestions.reduce((sum, q) => sum + (q.points || 1), 0)\<close>\<close>

definition sumPoints :: "raw_question list \<Rightarrow> rat" where
  "sumPoints qs = foldl (\<lambda>sum q. sum + numOr (rq_points q) 1) 0 qs"

text \<open>
  The value of \<open>parsedQuestions\<close> (or \<open>parsedAnswers\<close>) after the \<open>try\<close> block: a list, or the
  parsed value itself when it is not an array.
\<close>

datatype 'a parsed = PList "'a list" | PObject 'a

text \<open>
  The \<open>try\<close>/\<open>catch\<close> block shared by create and update, entered with a truthy payload;
  the result is \<open>(parsedQuestions, totalPoints)\<close>. When \<open>JSON.parse\<close> throws, both keep
  their initial values. A parsed value that is not an array has already been assigned to
  \<open>parsedQuestions\<close> when \<open>Array.isArray\<close> is tested.
\<close>

fun parseQuestions :: "raw_question payload \<Rightarrow> raw_question parsed \<times> rat" where
  "parseQuestions Absent = (PList [], 0)"
| "parseQuestions InvalidJson = (PList [], 0)"
| "parseQuestions (JsonList qs) = (PList (normalizeQuestions qs), sumPoints (normalizeQuestions qs))"
| "parseQuestions (JsonObject v) = (PObject v, 0)"

text \<open>
  Casting one value to QuizQuestionSchema: \<open>question\<close> and \<open>type\<close> are required (an empty
  string does not satisfy \<open>required\<close>), \<open>points\<close> defaults to 1 and \<open>order\<close> to 0, arrays
  default to empty, and the subdocument receives its own \<open>_id\<close>. \<open>None\<close> is a validation
  error.
\<close>

definition castQuestion :: "oid \<Rightarrow> raw_question \<Rightarrow> quiz_question option" where
  "castQuestion i q =
     (case (rq_question q, rq_type q) of
        (Some t, Some k) \<Rightarrow>
          if t = [] then None
          else Some \<lparr> q_id = i, q_question = t, q_type = k,
                      q_options = (case rq_options q of None \<Rightarrow> [] | Some xs \<Rightarrow> xs),
                      q_correctAnswer = rq_correctAnswer q,
                      q_correctAnswers = (case rq_correctAnswers q of None \<Rightarrow> [] | Some xs \<Rightarrow> xs),
                      q_points = (case rq_points q of None \<Rightarrow> 1 | Some p \<Rightarrow> p),
                      q_order = (case rq_order q of None \<Rightarrow> 0 | Some n \<Rightarrow> n) \<rparr>
      | _ \<Rightarrow> None)"

fun castQuestionList :: "oid \<Rightarrow> raw_question list \<Rightarrow> quiz_question list option" where
  "castQuestionList i [] = Some []"
| "castQuestionList i (q # qs) =
     (case castQuestion i q of
        None \<Rightarrow> None
      | Some c \<Rightarrow> (case castQuestionList (Suc i) qs of None \<Rightarrow> None | Some cs \<Rightarrow> Some (c # cs)))"

text \<open>
  Casting the value given for the path \<open>questions\<close> (an array of QuizQuestionSchema):
  Mongoose wraps a value that is not an array into a one-element array before casting.
\<close>

definition castQuestions :: "oid \<Rightarrow> raw_question parsed \<Rightarrow> quiz_question list option" where
  "castQuestions i p = (case p of PList qs \<Rightarrow> castQuestionList i qs | PObject v \<Rightarrow> castQuestionList i [v])"

subsection \<open>Create and update assignment\<close>

text \<open>The fields of \<open>req.body\<close> and \<open>req.files\<close> read by create and update.\<close>

record assignment_body =
  b_title :: "string option"
  b_description :: "string option"
  b_instructions :: "string option"
  b_type :: "assignment_type option"
  b_dueDate :: "nat option"
  b_lessonId :: "oid option"
  b_questions :: "raw_question payload"
  b_allowAutomaticGrading :: "bool option"
  b_allowResubmission :: "bool option"
  b_files :: "req_file list"

text \<open>
  \<open>router.post('/')\<close>. \<open>Assignment.create\<close> validates the document (\<open>title\<close> is required,
  the questions are cast) and throws on failure, which the handler answers with 500. The
  attachments are uploaded after the document has been created.
\<close>

definition createAssignment :: "env \<Rightarrow> user \<Rightarrow> assignment_body \<Rightarrow> db \<Rightarrow> assignment response \<times> db" where
  "createAssignment e u b st =
     (if \<not> authorize [Teacher, Admin] u then (Error 403, st)
      else
        let pq = (if b_type b = Some Quiz \<and> b_questions b \<noteq> Absent
                  then parseQuestions (b_questions b) else (PList [], 0));
            parsedQuestions = fst pq;
            total = snd pq
        in case castQuestions (Suc (nextId st)) parsedQuestions of
             None \<Rightarrow> (Error 500, st)
           | Some qs \<Rightarrow>
               if strOr (b_title b) [] = [] then (Error 500, st)
               else
                 let a = \<lparr> as_id = nextId st,
                           as_title = strOr (b_title b) [],
                           as_description = b_description b,
                           as_instructions = b_instructions b,
                           as_lesson = b_lessonId b,
                           as_type = (case b_type b of None \<Rightarrow> AssignmentT | Some t \<Rightarrow> t),
                           as_dueDate = b_dueDate b,
                           as_createdBy = u_id u,
                           as_attachments = [],
                           as_questions = qs,
                           as_totalPoints = total,
                           as_allowAutomaticGrading =
                             (case b_allowAutomaticGrading b of
                                None \<Rightarrow> (b_type b = Some Quiz) | Some v \<Rightarrow> v),
                           as_allowResubmission =
                             (case b_allowResubmission b of None \<Rightarrow> False | Some v \<Rightarrow> v) \<rparr>;
                     st1 = st \<lparr> assignments := assignments st @ [a],
                                 nextId := Suc (nextId st) + length qs \<rparr>
                 in if b_files b = [] then (Reply 201 a, st1)
                    else case saveFiles e ''ttls_assignments'' (b_files b) [] of
                           None \<Rightarrow> (Error 500, st1)
                         | Some saved \<Rightarrow>
                             (Reply 201 (a \<lparr> as_attachments := saved \<rparr>),
                              st1 \<lparr> assignments :=
                                      saveAssignment (a \<lparr> as_attachments := saved \<rparr>)
                                        (assignments st1) \<rparr>))"

text \<open>The scalar fields that \<open>router.put('/:id')\<close> copies from the body.\<close>

definition applyFields :: "assignment_body \<Rightarrow> assignment \<Rightarrow> assignment" where
  "applyFields b a =
     a \<lparr> as_title := (if strOr (b_title b) [] = [] then as_title a else strOr (b_title b) []),
         as_description := (case b_description b of None \<Rightarrow> as_description a | Some d \<Rightarrow> Some d),
         as_instructions := (case b_instructions b of None \<Rightarrow> as_instructions a | Some d \<Rightarrow> Some d),
         as_type := (case b_type b of None \<Rightarrow> as_type a | Some t \<Rightarrow> t),
         as_dueDate := (case b_dueDate b of None \<Rightarrow> as_dueDate a | Some d \<Rightarrow> Some d),
         as_lesson := (case b_lessonId b of None \<Rightarrow> as_lesson a | Some l \<Rightarrow> Some l),
         as_allowAutomaticGrading :=
           (case b_allowAutomaticGrading b of None \<Rightarrow> as_allowAutomaticGrading a | Some v \<Rightarrow> v),
         as_allowResubmission :=
           (case b_allowResubmission b of None \<Rightarrow> as_allowResubmission a | Some v \<Rightarrow> v) \<rparr>"

text \<open>
  The block \<open>if (questions) { ... }\<close> of update; the cast of the assigned value fails the
  later \<open>save\<close> when it is invalid (\<open>None\<close>).
\<close>

definition applyQuestions :: "oid \<Rightarrow> assignment_body \<Rightarrow> assignment \<Rightarrow> assignment option" where
  "applyQuestions i b a =
     (if b_questions b \<noteq> Absent
      then (let pq = parseQuestions (b_questions b)
            in case castQuestions i (fst pq) of
                 None \<Rightarrow> None
               | Some qs \<Rightarrow> Some (a \<lparr> as_questions := qs, as_totalPoints := snd pq \<rparr>))
      else Some a)"

definition applyAttachments :: "env \<Rightarrow> assignment_body \<Rightarrow> assignment \<Rightarrow> assignment option" where
  "applyAttachments e b a =
     (if b_files b = [] then Some a
      else case saveFiles e ''ttls_assignments'' (b_files b) (as_attachments a) of
             None \<Rightarrow> None
           | Some saved \<Rightarrow> Some (a \<lparr> as_attachments := saved \<rparr>))"

definition updateAssignment ::
  "env \<Rightarrow> user \<Rightarrow> oid \<Rightarrow> assignment_body \<Rightarrow> db \<Rightarrow> assignment response \<times> db" where
  "updateAssignment e u i b st =
     (if \<not> authorize [Teacher, Admin] u then (Error 403, st)
      else case findById (assignments st) i of
             None \<Rightarrow> (Error 404, st)
           | Some a0 \<Rightarrow>
               if as_createdBy a0 \<noteq> u_id u \<and> u_role u \<noteq> Admin then (Error 403, st)
               else case applyQuestions (nextId st) b (applyFields b a0) of
                      None \<Rightarrow> (Error 500, st)
                    | Some a1 \<Rightarrow>
                        (case applyAttachments e b a1 of
                           None \<Rightarrow> (Error 500, st)
                         | Some a2 \<Rightarrow>
                             (Reply 200 a2,
                              st \<lparr> assignments := saveAssignment a2 (assignments st),
                                   nextId := nextId st + length (as_questions a2) \<rparr>)))"

subsection \<open>Submit\<close>

record submit_body =
  sb_content :: "string option"
  sb_answers :: "raw_answer payload"
  sb_files :: "req_file list"

text \<open>\<open>parsedAnswers\<close> after the \<open>try\<close> block: the initial empty list when the field is absent or
  \<open>JSON.parse\<close> throws.\<close>

fun parseAnswers :: "raw_answer payload \<Rightarrow> raw_answer parsed" where
  "parseAnswers Absent = PList []"
| "parseAnswers InvalidJson = PList []"
| "parseAnswers (JsonList xs) = PList xs"
| "parseAnswers (JsonObject v) = PObject v"

definition pushFile :: "raw_answer \<Rightarrow> stored_file \<Rightarrow> raw_answer" where
  "pushFile a f = a \<lparr> ra_files := Some ((case ra_files a of None \<Rightarrow> [] | Some fs \<Rightarrow> fs) @ [f]) \<rparr>"

text \<open>The body of the loop that attaches an uploaded file to a file-upload answer; a failed
  upload is logged and the answer is left as it is.\<close>

definition attachAnswerFile :: "env \<Rightarrow> req_file list \<Rightarrow> raw_answer \<Rightarrow> raw_answer" where
  "attachAnswerFile e files a =
     (case ra_fileIndex a of
        None \<Rightarrow> a
      | Some i \<Rightarrow>
          if ra_type a = Some ''file-upload'' \<and> i < length files
          then (let f = files ! i
                in if hasCloudinary e
                   then (if buffer f
                         then (case cloudUpload e ''ttls_submissions'' f of
                                 None \<Rightarrow> a
                               | Some up \<Rightarrow> pushFile a (uploadedFile f up))
                         else a)
                   else pushFile a (fileMeta f))
          else a)"

definition attachAnswerFiles :: "env \<Rightarrow> req_file list \<Rightarrow> raw_answer parsed \<Rightarrow> raw_answer parsed" where
  "attachAnswerFiles e files p =
     (case p of PList xs \<Rightarrow> PList (map (attachAnswerFile e files) xs) | PObject v \<Rightarrow> PObject v)"

text \<open>The callback of \<open>parsedAnswers.map\<close> that merges the graded values onto an answer.\<close>

definition mergeGraded :: "graded_answer list \<Rightarrow> raw_answer \<Rightarrow> raw_answer" where
  "mergeGraded gs a =
     (let graded = find_first (\<lambda>g. Some (g_questionId g) = ra_questionId a) gs
      in a \<lparr> ra_isCorrect := (case graded of None \<Rightarrow> None | Some g \<Rightarrow> g_isCorrect g),
             ra_points := Some (case graded of None \<Rightarrow> 0 | Some g \<Rightarrow> g_points g) \<rparr>)"

text \<open>The values computed by the auto-grading block of submit.\<close>

record grading =
  gr_grade :: "rat option"
  gr_totalPoints :: rat
  gr_autoGraded :: bool
  gr_answers :: "raw_answer parsed"

definition gradeSubmitted :: "assignment \<Rightarrow> raw_answer parsed \<Rightarrow> grading" where
  "gradeSubmitted a p =
     (case p of
        PList xs \<Rightarrow>
          if as_type a = Quiz \<and> as_allowAutomaticGrading a \<and> length xs > 0
          then (let gradingResult = autoGradeQuiz a xs
                in \<lparr> gr_grade = Some (totalScore gradingResult),
                     gr_totalPoints = totalPoints gradingResult,
                     gr_autoGraded = True,
                     gr_answers = PList (map (mergeGraded (gradedAnswers gradingResult)) xs) \<rparr>)
          else \<lparr> gr_grade = None,
                 gr_totalPoints = (if as_totalPoints a = 0 then 100 else as_totalPoints a),
                 gr_autoGraded = False, gr_answers = p \<rparr>
      | PObject v \<Rightarrow>
          \<lparr> gr_grade = None,
            gr_totalPoints = (if as_totalPoints a = 0 then 100 else as_totalPoints a),
            gr_autoGraded = False, gr_answers = p \<rparr>)"

text \<open>Casting to AnswerSchema: \<open>questionId\<close> is required; arrays default to empty.\<close>

definition castAnswer :: "raw_answer \<Rightarrow> answer option" where
  "castAnswer a =
     (case ra_questionId a of
        None \<Rightarrow> None
      | Some q \<Rightarrow>
          Some \<lparr> a_questionId = q, a_answer = ra_answer a,
                 a_answers = (case ra_answers a of None \<Rightarrow> [] | Some xs \<Rightarrow> xs),
                 a_files = (case ra_files a of None \<Rightarrow> [] | Some fs \<Rightarrow> fs),
                 a_isCorrect = ra_isCorrect a, a_points = ra_points a,
                 a_feedback = ra_feedback a \<rparr>)"

fun castAnswerList :: "raw_answer list \<Rightarrow> answer list option" where
  "castAnswerList [] = Some []"
| "castAnswerList (a # as) =
     (case castAnswer a of
        None \<Rightarrow> None
      | Some c \<Rightarrow> (case castAnswerList as of None \<Rightarrow> None | Some cs \<Rightarrow> Some (c # cs)))"

definition castAnswers :: "raw_answer parsed \<Rightarrow> answer list option" where
  "castAnswers p = (case p of PList xs \<Rightarrow> castAnswerList xs | PObject v \<Rightarrow> castAnswerList [v])"

text \<open>\<open>Submission.findOne({ assignment, student })\<close>\<close>

definition findSubmission :: "submission list \<Rightarrow> oid \<Rightarrow> oid \<Rightarrow> submission option" where
  "findSubmission xs a u = find_first (\<lambda>s. s_assignment s = a \<and> s_student s = u) xs"

text \<open>The branch \<open>if (isResubmission)\<close>: the existing document is updated in place.\<close>

definition resubmit ::
  "env \<Rightarrow> submission \<Rightarrow> string option \<Rightarrow> answer list \<Rightarrow> stored_file list \<Rightarrow> grading \<Rightarrow> submission" where
  "resubmit e existingSubmission content answers filesSaved g =
     (let s1 = existingSubmission
                 \<lparr> s_previousContent := s_content existingSubmission,
                   s_previousAnswers := s_answers existingSubmission,
                   s_previousFiles := s_files existingSubmission,
                   s_content := content,
                   s_answers := answers,
                   s_files := filesSaved,
                   s_submittedAt := Some (now e),
                   s_resubmitted := True,
                   s_resubmittedAt := Some (now e) \<rparr>
      in if gr_autoGraded g
         then s1 \<lparr> s_grade := gr_grade g, s_totalPoints := Some (gr_totalPoints g),
                   s_isGraded := True, s_gradedAt := Some (now e) \<rparr>
         else s1)"

text \<open>The branch \<open>Submission.create({...})\<close>; the schema defaults fill the other fields.\<close>

definition newSubmission ::
  "env \<Rightarrow> oid \<Rightarrow> assignment \<Rightarrow> user \<Rightarrow> string option \<Rightarrow> answer list \<Rightarrow> stored_file list \<Rightarrow> grading
     \<Rightarrow> submission" where
  "newSubmission e i a u content answers filesSaved g =
     \<lparr> s_id = i, s_assignment = as_id a, s_student = u_id u, s_content = content,
       s_answers = answers, s_files = filesSaved, s_grade = gr_grade g,
       s_totalPoints = Some (gr_totalPoints g), s_feedback = None,
       s_isGraded = gr_autoGraded g, s_autoGraded = gr_autoGraded g,
       s_submittedAt = Some (now e), s_gradedAt = None,
       s_resubmitted = False, s_resubmittedAt = None,
       s_previousContent = None, s_previousAnswers = [], s_previousFiles = [] \<rparr>"

text \<open>\<open>router.post('/:id/submit')\<close>\<close>

definition submitAssignment ::
  "env \<Rightarrow> user \<Rightarrow> oid \<Rightarrow> submit_body \<Rightarrow> db \<Rightarrow> submission response \<times> db" where
  "submitAssignment e u i b st =
     (case findById (assignments st) i of
        None \<Rightarrow> (Error 404, st)
      | Some a \<Rightarrow>
          let existingSubmission = findSubmission (submissions st) i (u_id u);
              isResubmission = (existingSubmission \<noteq> None)
          in if isResubmission \<and> \<not> as_allowResubmission a then (Error 400, st)
             else
               case (if sb_files b = [] then Some []
                     else saveFiles e ''ttls_submissions'' (sb_files b) []) of
                 None \<Rightarrow> (Error 500, st)
               | Some filesSaved \<Rightarrow>
                   let g = gradeSubmitted a
                             (attachAnswerFiles e (sb_files b) (parseAnswers (sb_answers b)))
                   in case castAnswers (gr_answers g) of
                        None \<Rightarrow> (Error 500, st)
                      | Some answers \<Rightarrow>
                          (case existingSubmission of
                             Some ex \<Rightarrow>
                               (Reply 201 (resubmit e ex (sb_content b) answers filesSaved g),
                                st \<lparr> submissions :=
                                       saveSubmission
                                         (resubmit e ex (sb_content b) answers filesSaved g)
                                         (submissions st) \<rparr>)
                           | None \<Rightarrow>
                               (Reply 201
                                  (newSubmission e (nextId st) a u (sb_content b) answers filesSaved g),
                                st \<lparr> submissions := submissions st @
                                       [newSubmission e (nextId st) a u (sb_content b) answers
                                          filesSaved g],
                                     nextId := Suc (nextId st) \<rparr>)))"

subsection \<open>Manual grading\<close>

text \<open>An element of \<open>req.body.answers\<close> of the grade route; \<open>isCorrect\<close> may be absent
  (\<open>None\<close>), \<open>null\<close> (\<open>Some None\<close>) or a boolean.\<close>

record answer_grade =
  ag_questionId :: "oid option"
  ag_points :: "rat option"
  ag_feedback :: "string option"
  ag_isCorrect :: "bool option option"

record grade_body =
  gb_grade :: "rat option"
  gb_feedback :: "string option"
  gb_answers :: "answer_grade list option"

text \<open>The callback of \<open>submission.answers.map\<close>.\<close>

definition applyAnswerGrade :: "answer_grade list \<Rightarrow> answer \<Rightarrow> answer" where
  "applyAnswerGrade grades a =
     (case find_first (\<lambda>g. ag_questionId g = Some (a_questionId a)) grades of
        Some graded \<Rightarrow>
          a \<lparr> a_points := (case ag_points graded of Some p \<Rightarrow> Some p | None \<Rightarrow> a_points a),
              a_feedback := (case ag_feedback graded of Some f \<Rightarrow> Some f | None \<Rightarrow> a_feedback a),
              a_isCorrect := (case ag_isCorrect graded of Some c \<Rightarrow> c | None \<Rightarrow> a_isCorrect a) \<rparr>
      | None \<Rightarrow> a)"

text \<open>\<open>submission.answers.reduce((sum, a) => sum + (a.points || 0), 0)\<close>\<close>

definition sumAnswerPoints :: "answer list \<Rightarrow> rat" where
  "sumAnswerPoints xs = foldl (\<lambda>sum a. sum + numOr (a_points a) 0) 0 xs"

text \<open>
  \<open>router.put('/:assignmentId/submissions/:submissionId/grade')\<close>. The submission is
  populated with its assignment; reading \<open>submission.assignment.type\<close> throws when the
  assignment no longer exists, which the handler answers with 500.
\<close>

definition gradeSubmission ::
  "env \<Rightarrow> user \<Rightarrow> oid \<Rightarrow> oid \<Rightarrow> grade_body \<Rightarrow> db \<Rightarrow> submission response \<times> db" where
  "gradeSubmission e u assignmentId submissionId b st =
     (if \<not> authorize [Teacher, Admin] u then (Error 403, st)
      else case find_first (\<lambda>s. s_id s = submissionId \<and> s_assignment s = assignmentId)
                  (submissions st) of
             None \<Rightarrow> (Error 404, st)
           | Some sub \<Rightarrow>
               let s1 = sub \<lparr> s_grade := (case gb_grade b of Some g \<Rightarrow> Some g | None \<Rightarrow> s_grade sub),
                               s_feedback := (case gb_feedback b of Some f \<Rightarrow> Some f
                                              | None \<Rightarrow> s_feedback sub),
                               s_isGraded := True,
                               s_gradedAt := Some (now e) \<rparr>
               in case gb_answers b of
                    None \<Rightarrow> (Reply 200 s1, st \<lparr> submissions := saveSubmission s1 (submissions st) \<rparr>)
                  | Some grades \<Rightarrow>
                      (case findById (assignments st) (s_assignment sub) of
                         None \<Rightarrow> (Error 500, st)
                       | Some a \<Rightarrow>
                           if as_type a = Quiz
                           then (let s2 = s1 \<lparr> s_answers :=
                                                 map (applyAnswerGrade grades) (s_answers s1) \<rparr>;
                                     score = sumAnswerPoints (s_answers s2);
                                     s3 = (if gb_grade b = None
                                           then s2 \<lparr> s_grade := Some score \<rparr> else s2)
                                 in (Reply 200 s3,
                                     st \<lparr> submissions := saveSubmission s3 (submissions st) \<rparr>))
                           else (Reply 200 s1,
                                 st \<lparr> submissions := saveSubmission s1 (submissions st) \<rparr>)))"

subsection \<open>Statistics\<close>










subsection \<open>Example data\<close>

definition mkQuestion :: "oid \<Rightarrow> question_type \<Rightarrow> string \<Rightarrow> string list \<Rightarrow> rat \<Rightarrow> quiz_question" where
  "mkQuestion i t c cs p =
     \<lparr> q_id = i, q_question = ''Q'', q_type = t, q_options = [], q_correctAnswer = Some c,
       q_correctAnswers = cs, q_points = p, q_order = 0 \<rparr>"

definition mkQuiz :: "oid \<Rightarrow> bool \<Rightarrow> bool \<Rightarrow> quiz_question list \<Rightarrow> assignment" where
  "mkQuiz i auto resub qs =
     \<lparr> as_id = i, as_title = ''Quiz'', as_description = None, as_instructions = None,
       as_lesson = None, as_type = Quiz, as_dueDate = None, as_createdBy = 1,
       as_attachments = [], as_questions = qs, as_totalPoints = sum_list (map q_points qs),
       as_allowAutomaticGrading = auto, as_allowResubmission = resub \<rparr>"

definition mkAnswer :: "oid \<Rightarrow> string option \<Rightarrow> string list option \<Rightarrow> raw_answer" where
  "mkAnswer i a as =
     \<lparr> ra_questionId = Some i, ra_answer = a, ra_answers = as, ra_type = None,
       ra_fileIndex = None, ra_files = None, ra_isCorrect = None, ra_points = None,
       ra_feedback = None \<rparr>"

definition mkStored :: "oid \<Rightarrow> string \<Rightarrow> bool \<Rightarrow> rat \<Rightarrow> answer" where
  "mkStored q t c p = \<lparr> a_questionId = q, a_answer = Some t, a_answers = [], a_files = [],
      a_isCorrect = Some c, a_points = Some p, a_feedback = None \<rparr>"

definition mkSub :: "oid \<Rightarrow> oid \<Rightarrow> oid \<Rightarrow> rat option \<Rightarrow> submission" where
  "mkSub i a u g = \<lparr> s_id = i, s_assignment = a, s_student = u, s_content = None, s_answers = [],
     s_files = [], s_grade = g, s_totalPoints = None, s_feedback = None, s_isGraded = (g \<noteq> None),
     s_autoGraded = False, s_submittedAt = Some 0, s_gradedAt = None, s_resubmitted = False,
     s_resubmittedAt = None, s_previousContent = None, s_previousAnswers = [], s_previousFiles = [] \<rparr>"

definition exGradeDb :: db where
  "exGradeDb = \<lparr> assignments = [mkQuiz 7 True False
                    [mkQuestion 1 MultipleChoice ''a'' [] 5, mkQuestion 2 MultipleChoice ''b'' [] 5]],
      submissions = [(mkSub 11 7 3 (Some 5))
                       \<lparr> s_answers := [mkStored 1 ''a'' True 5, mkStored 2 ''c'' False 0] \<rparr>,
                     mkSub 12 7 4 (Some 9)],
      nextId = 100 \<rparr>"

definition exEnv :: env where
  "exEnv = \<lparr> hasCloudinary = False, cloudUpload = (\<lambda>folder f. None), now = 42 \<rparr>"



definition exStudent :: user where
  "exStudent = \<lparr> u_id = 3, u_role = Student \<rparr>"

definition exQuiz :: "bool \<Rightarrow> assignment" where
  "exQuiz resub = mkQuiz 7 True resub [mkQuestion 21 MultipleChoice ''paris'' [] 5]"

definition exQuizDb :: "bool \<Rightarrow> submission list \<Rightarrow> db" where
  "exQuizDb resub subs = \<lparr> assignments = [exQuiz resub], submissions = subs, nextId = 100 \<rparr>"

definition exBody :: "string \<Rightarrow> raw_answer payload \<Rightarrow> submit_body" where
  "exBody c p = \<lparr> sb_content = Some c, sb_answers = p, sb_files = [] \<rparr>"

definition exTeacher :: user where
  "exTeacher = \<lparr> u_id = 1, u_role = Teacher \<rparr>"

definition exObjectBody :: assignment_body where
  "exObjectBody =
     \<lparr> b_title = Some ''Quiz 1'', b_description = None, b_instructions = None,
       b_type = Some Quiz, b_dueDate = None, b_lessonId = None,
       b_questions = JsonObject \<lparr> rq_question = Some ''Q1'', rq_type = Some Essay,
                                  rq_options = None, rq_correctAnswer = None,
                                  rq_correctAnswers = None, rq_points = Some 7,
                                  rq_order = None \<rparr>,
       b_allowAutomaticGrading = None, b_allowResubmission = None, b_files = [] \<rparr>"

definition exEnumQuiz :: assignment where
  "exEnumQuiz = mkQuiz 7 True False
     [mkQuestion 21 Enumeration [] [''a'', ''b'', ''c''] 3,
      mkQuestion 22 Enumeration [] [''x''] 4,
      mkQuestion 23 Enumeration [] [] 2,
      mkQuestion 24 Enumeration [] [''a'', ''b'', ''c''] 3]"

definition exEnumAnswers :: "raw_answer list" where
  "exEnumAnswers =
     [mkAnswer 22 None (Some [''X '']),
      mkAnswer 21 None (Some [''A'', '' b'']),
      mkAnswer 24 None (Some [''a'', ''a'', ''a''])]"



definition exBlankQuiz :: assignment where
  "exBlankQuiz = mkQuiz 7 True False
     [mkQuestion 21 Identification [] [] 5,
      mkQuestion 22 MultipleChoice ''paris'' [] 3,
      mkQuestion 23 MultipleChoice [] [] 2]"

definition exBlankAnswers :: "raw_answer list" where
  "exBlankAnswers =
     [mkAnswer 22 (Some ''paris'') None,
      mkAnswer 23 (Some [CHR 0x20, CHR 0xA0]) None]"

section \<open>Properties\<close>

subsection \<open>The auto-grader as a map over the questions\<close>

lemma foldl_gradeStep:
  "foldl (gradeStep answers) acc qs =
     \<lparr> totalScore = totalScore acc + sum_list (map (\<lambda>q. g_points (gradeQuestion answers q)) qs),
       totalPoints = totalPoints acc + sum_list (map pointsOr1 qs),
       gradedAnswers = gradedAnswers acc @ map (gradeQuestion answers) qs \<rparr>"
  by (induction qs arbitrary: acc) (simp_all add: gradeStep_def Let_def add.assoc)

lemma autoGradeQuiz_eq:
  "autoGradeQuiz a answers =
     \<lparr> totalScore = sum_list (map (\<lambda>q. g_points (gradeQuestion answers q)) (as_questions a)),
       totalPoints = sum_list (map pointsOr1 (as_questions a)),
       gradedAnswers = map (gradeQuestion answers) (as_questions a) \<rparr>"
  by (simp add: autoGradeQuiz_def foldl_gradeStep)

lemma graded_nth:
  "i < length (as_questions a) \<Longrightarrow>
   gradedAnswers (autoGradeQuiz a answers) ! i = gradeQuestion answers (as_questions a ! i)"
  by (simp add: autoGradeQuiz_eq)

lemma strOr_empty: "strOr x [] = (case x of None \<Rightarrow> [] | Some s \<Rightarrow> s)"
  by (simp add: strOr_def split: option.splits)

lemma lowerChar_white:
  assumes "isWhiteSpace c"
  shows "lowerChar c = c"
proof -
  from assms consider "c = CHR 0x09" | "c = CHR 0x0A" | "c = CHR 0x0B" | "c = CHR 0x0C"
    | "c = CHR 0x0D" | "c = CHR 0x20" | "c = CHR 0xA0"
    unfolding isWhiteSpace_def by auto
  then show ?thesis
    by cases (simp_all add: lowerChar_def upper_chars_def lower_chars_def)
qed

lemma dropWhile_all: "\<forall>c\<in>set s. P c \<Longrightarrow> dropWhile P s = []"
  by (induction s) simp_all

lemma trim_blank:
  assumes ws: "\<forall>c\<in>set s. isWhiteSpace c"
  shows "trim (toLowerCase s) = []"
proof -
  have low: "toLowerCase s = s"
    unfolding toLowerCase_def using ws by (simp add: lowerChar_white map_idI)
  have blank: "dropWhile isWhiteSpace s = []"
    using ws by (rule dropWhile_all)
  show ?thesis
    unfolding trim_def low blank by simp
qed

lemmas js_string_defs =
  trim_def toLowerCase_def lowerChar_def upper_chars_def lower_chars_def isWhiteSpace_def

subsection \<open>Grading of one question\<close>

text \<open>The answer graded for a question is the first submitted answer that carries its id.\<close>

lemma find_first_find: "find_first P xs = List.find P xs"
  by (induction xs) simp_all

lemma findAnswer_find:
  "findAnswer answers q = List.find (\<lambda>x. ra_questionId x = Some (q_id q)) answers"
  by (simp add: findAnswer_def find_first_find)

lemmas grader_example_defs =
  mkQuiz_def mkQuestion_def mkAnswer_def js_string_defs

text \<open>
  C1 (amended). For an enumeration question, let \<open>correct\<close> be the lowercased, trimmed
  correct answers and \<open>student\<close> the lowercased, trimmed \<open>answers\<close> of the first submitted
  answer whose \<open>questionId\<close> is the id of the question (empty when there is none), and let
  \<open>correctCount\<close> be the number of entries of \<open>student\<close>, duplicates included, that occur
  in \<open>correct\<close>. When \<open>correct\<close> is not empty, the points awarded are
  \<open>(correctCount / |correct|) * worth\<close>, where \<open>worth\<close> is \<open>question.points\<close>, or 1 when
  \<open>question.points\<close> is 0, and \<open>isCorrect\<close> is true exactly when
  \<open>correctCount = |correct|\<close> and the student gave exactly \<open>|correct|\<close> answers. When
  \<open>correct\<close> is empty, the points are 0 and \<open>isCorrect\<close> is false.
\<close>

theorem enumeration_partial_credit:
  assumes "i < length (as_questions a)"
    and "q = as_questions a ! i"
    and "g = gradedAnswers (autoGradeQuiz a answers) ! i"
    and "q_type q = Enumeration"
    and "worth = (if q_points q = 0 then 1 else q_points q)"
    and "correct = map (\<lambda>s. trim (toLowerCase s)) (q_correctAnswers q)"
    and "student = map (\<lambda>s. trim (toLowerCase s))
           (case List.find (\<lambda>x. ra_questionId x = Some (q_id q)) answers of
              None \<Rightarrow> []
            | Some ans \<Rightarrow> (case ra_answers ans of None \<Rightarrow> [] | Some xs \<Rightarrow> xs))"
    and "correctCount = length (filter (\<lambda>sa. sa \<in> set correct) student)"
  shows "g_questionId g = q_id q
       \<and> (correct \<noteq> [] \<longrightarrow>
            g_points g = (of_nat correctCount / of_nat (length correct)) * worth
          \<and> g_isCorrect g = Some (correctCount = length correct \<and> length student = length correct))
       \<and> (correct = [] \<longrightarrow> g_points g = 0 \<and> g_isCorrect g = Some False)"
  using assms
  by (simp add: graded_nth gradeQuestion_def gradeOne_def answerList_def pointsOr1_def Let_def
      findAnswer_find)

text \<open>
  The witness grades four enumeration questions against answers submitted in another order:
  two of three correct, a full match, a question without correct answers and without an
  answer, and one correct answer given three times.
\<close>

theorem enumeration_partial_credit_witness:
  "g_points (gradedAnswers (autoGradeQuiz exEnumQuiz exEnumAnswers) ! 0) = 2
   \<and> g_isCorrect (gradedAnswers (autoGradeQuiz exEnumQuiz exEnumAnswers) ! 0) = Some False
   \<and> g_points (gradedAnswers (autoGradeQuiz exEnumQuiz exEnumAnswers) ! 1) = 4
   \<and> g_isCorrect (gradedAnswers (autoGradeQuiz exEnumQuiz exEnumAnswers) ! 1) = Some True
   \<and> g_points (gradedAnswers (autoGradeQuiz exEnumQuiz exEnumAnswers) ! 2) = 0
   \<and> g_isCorrect (gradedAnswers (autoGradeQuiz exEnumQuiz exEnumAnswers) ! 2) = Some False
   \<and> g_points (gradedAnswers (autoGradeQuiz exEnumQuiz exEnumAnswers) ! 3) = 3
   \<and> g_isCorrect (gradedAnswers (autoGradeQuiz exEnumQuiz exEnumAnswers) ! 3) = Some True"
  using enumeration_partial_credit
          [of 0 exEnumQuiz _ _ exEnumAnswers, OF _ refl refl _ refl refl refl refl]
        enumeration_partial_credit
          [of 1 exEnumQuiz _ _ exEnumAnswers, OF _ refl refl _ refl refl refl refl]
        enumeration_partial_credit
          [of 2 exEnumQuiz _ _ exEnumAnswers, OF _ refl refl _ refl refl refl refl]
        enumeration_partial_credit
          [of 3 exEnumQuiz _ _ exEnumAnswers, OF _ refl refl _ refl refl refl refl]
  by (simp add: exEnumQuiz_def exEnumAnswers_def grader_example_defs)

text \<open>
  The claim as stated, with \<open>question.points\<close> itself, fails for a question whose points
  are 0: two of three correct answers earn 2/3 of a point.
\<close>

theorem enumeration_partial_credit_counterexample:
  "g_points (gradedAnswers (autoGradeQuiz
       (mkQuiz 7 True False [mkQuestion 21 Enumeration [] [''a'', ''b'', ''c''] 0])
       [mkAnswer 21 None (Some [''a'', ''b''])]) ! 0) = 2 / 3
   \<and> (2 / 3) * q_points (mkQuestion 21 Enumeration [] [''a'', ''b'', ''c''] 0) = 0"
  by (simp add: autoGradeQuiz_eq gradeQuestion_def gradeOne_def findAnswer_def answerList_def
      pointsOr1_def grader_example_defs)




subsection \<open>Manual grading\<close>

lemma find_first_Some: "find_first P xs = Some x \<Longrightarrow> P x \<and> x \<in> set xs"
  by (induction xs) (auto split: if_splits)

lemma foldl_answer_points:
  "foldl (\<lambda>sum a. sum + numOr (a_points a) 0) acc xs
     = acc + sum_list (map (\<lambda>x. case a_points x of None \<Rightarrow> 0 | Some p \<Rightarrow> p) xs)"
  by (induction xs arbitrary: acc) (auto simp: numOr_def add.assoc split: option.splits)

lemma sumAnswerPoints_eq:
  "sumAnswerPoints xs = sum_list (map (\<lambda>x. case a_points x of None \<Rightarrow> 0 | Some p \<Rightarrow> p) xs)"
  by (simp add: sumAnswerPoints_def foldl_answer_points)

lemma find_first_save:
  assumes "find_first (\<lambda>s. s_id s = sid \<and> s_assignment s = aid) xs = Some sub"
    and "s_id s' = sid" and "s_assignment s' = aid"
  shows "find_first (\<lambda>s. s_id s = sid \<and> s_assignment s = aid) (saveSubmission s' xs) = Some s'"
  using assms
  by (induction xs) (auto simp: saveSubmission_def split: if_splits)

text \<open>What a successful grade call has saved.\<close>

lemma grade_reply:
  assumes "gradeSubmission e u aid sid b st = (Reply c s', st')"
  shows "\<exists>sub. find_first (\<lambda>s. s_id s = sid \<and> s_assignment s = aid) (submissions st) = Some sub
           \<and> s_id s' = s_id sub \<and> s_assignment s' = s_assignment sub
           \<and> st' = st \<lparr> submissions := saveSubmission s' (submissions st) \<rparr>"
  using assms
  by (auto simp: gradeSubmission_def Let_def split: if_splits option.splits)

text \<open>
  C6. A successful manual grading call saves the submission it returns: afterwards the
  submission found under the two ids is the returned one, with \<open>isGraded\<close> and \<open>gradedAt\<close>
  set, and the submissions with another id are as before. When the assignment is a quiz and per-answer grades are supplied, every stored answer
  whose \<open>questionId\<close> matches a supplied entry (the first one with that id) takes the supplied
  \<open>points\<close>, \<open>feedback\<close> and \<open>isCorrect\<close>, each of them where it is supplied, and the other
  answers are unchanged; the grade is the supplied top-level grade when there is one, and
  otherwise the sum of the points of all answers after the update.
\<close>

theorem manual_grading:
  assumes "gradeSubmission e u aid sid b st = (Reply 200 s', st')"
    and "List.find (\<lambda>s. s_id s = sid \<and> s_assignment s = aid) (submissions st) = Some sub"
  shows "List.find (\<lambda>s. s_id s = sid \<and> s_assignment s = aid) (submissions st') = Some s'
       \<and> length (submissions st') = length (submissions st)
       \<and> assignments st' = assignments st
       \<and> (\<forall>k < length (submissions st).
             s_id (submissions st ! k) \<noteq> sid \<longrightarrow> submissions st' ! k = submissions st ! k)
       \<and> s_isGraded s' \<and> s_gradedAt s' = Some (now e)
       \<and> (\<forall>a grades. findById (assignments st) aid = Some a \<and> as_type a = Quiz
              \<and> gb_answers b = Some grades \<longrightarrow>
            length (s_answers s') = length (s_answers sub)
          \<and> (\<forall>k < length (s_answers sub).
               case List.find (\<lambda>g. ag_questionId g = Some (a_questionId (s_answers sub ! k))) grades of
                 None \<Rightarrow> s_answers s' ! k = s_answers sub ! k
               | Some g \<Rightarrow>
                   a_points (s_answers s' ! k)
                     = (case ag_points g of Some p \<Rightarrow> Some p | None \<Rightarrow> a_points (s_answers sub ! k))
                 \<and> a_feedback (s_answers s' ! k)
                     = (case ag_feedback g of Some f \<Rightarrow> Some f | None \<Rightarrow> a_feedback (s_answers sub ! k))
                 \<and> a_isCorrect (s_answers s' ! k)
                     = (case ag_isCorrect g of Some c \<Rightarrow> c | None \<Rightarrow> a_isCorrect (s_answers sub ! k)))
          \<and> s_grade s' = (case gb_grade b of
                             Some g \<Rightarrow> Some g
                           | None \<Rightarrow> Some (sum_list (map (\<lambda>x. case a_points x of None \<Rightarrow> 0 | Some p \<Rightarrow> p)
                                                    (s_answers s')))))"
proof -
  from assms(2) have found: "find_first (\<lambda>s. s_id s = sid \<and> s_assignment s = aid) (submissions st)
                             = Some sub"
    by (simp add: find_first_find)
  then have aid: "s_assignment sub = aid" and sid: "s_id sub = sid"
    by (auto dest: find_first_Some)
  from grade_reply [OF assms(1)] found
  have keys: "s_id s' = sid" "s_assignment s' = aid"
    and store: "st' = st \<lparr> submissions := saveSubmission s' (submissions st) \<rparr>"
    by (auto simp: sid aid)
  have stored: "List.find (\<lambda>s. s_id s = sid \<and> s_assignment s = aid) (submissions st') = Some s'
       \<and> length (submissions st') = length (submissions st)
       \<and> assignments st' = assignments st
       \<and> (\<forall>k < length (submissions st).
             s_id (submissions st ! k) \<noteq> sid \<longrightarrow> submissions st' ! k = submissions st ! k)"
    using find_first_save [OF found keys]
    by (simp add: store find_first_find [symmetric] saveSubmission_def keys)
  have graded: "s_isGraded s' \<and> s_gradedAt s' = Some (now e)"
    using assms(1) found
    by (auto simp: gradeSubmission_def Let_def split: if_splits option.splits)
  have quiz: "length (s_answers s') = length (s_answers sub)
          \<and> (\<forall>k < length (s_answers sub).
               case List.find (\<lambda>g. ag_questionId g = Some (a_questionId (s_answers sub ! k))) grades of
                 None \<Rightarrow> s_answers s' ! k = s_answers sub ! k
               | Some g \<Rightarrow>
                   a_points (s_answers s' ! k)
                     = (case ag_points g of Some p \<Rightarrow> Some p | None \<Rightarrow> a_points (s_answers sub ! k))
                 \<and> a_feedback (s_answers s' ! k)
                     = (case ag_feedback g of Some f \<Rightarrow> Some f | None \<Rightarrow> a_feedback (s_answers sub ! k))
                 \<and> a_isCorrect (s_answers s' ! k)
                     = (case ag_isCorrect g of Some c \<Rightarrow> c | None \<Rightarrow> a_isCorrect (s_answers sub ! k)))
          \<and> s_grade s' = (case gb_grade b of
                             Some g \<Rightarrow> Some g
                           | None \<Rightarrow> Some (sum_list (map (\<lambda>x. case a_points x of None \<Rightarrow> 0 | Some p \<Rightarrow> p)
                                                    (s_answers s'))))"
    if a: "findById (assignments st) aid = Some a" "as_type a = Quiz" "gb_answers b = Some grades"
    for a grades
  proof -
    have ans: "s_answers s' = map (applyAnswerGrade grades) (s_answers sub)"
      using assms(1) found a aid
      by (auto simp: gradeSubmission_def Let_def split: if_splits option.splits)
    have gr: "s_grade s' = (case gb_grade b of Some g \<Rightarrow> Some g
                            | None \<Rightarrow> Some (sumAnswerPoints (s_answers s')))"
      using assms(1) found a aid
      by (auto simp: gradeSubmission_def Let_def split: if_splits option.splits)
    have each: "case List.find (\<lambda>g. ag_questionId g = Some (a_questionId (s_answers sub ! k))) grades of
                 None \<Rightarrow> s_answers s' ! k = s_answers sub ! k
               | Some g \<Rightarrow>
                   a_points (s_answers s' ! k)
                     = (case ag_points g of Some p \<Rightarrow> Some p | None \<Rightarrow> a_points (s_answers sub ! k))
                 \<and> a_feedback (s_answers s' ! k)
                     = (case ag_feedback g of Some f \<Rightarrow> Some f | None \<Rightarrow> a_feedback (s_answers sub ! k))
                 \<and> a_isCorrect (s_answers s' ! k)
                     = (case ag_isCorrect g of Some c \<Rightarrow> c | None \<Rightarrow> a_isCorrect (s_answers sub ! k))"
      if "k < length (s_answers sub)" for k
      using that by (simp add: ans applyAnswerGrade_def find_first_find split: option.splits)
    have len: "length (s_answers s') = length (s_answers sub)"
      by (simp add: ans)
    have total: "s_grade s' = (case gb_grade b of
                             Some g \<Rightarrow> Some g
                           | None \<Rightarrow> Some (sum_list (map (\<lambda>x. case a_points x of None \<Rightarrow> 0 | Some p \<Rightarrow> p)
                                                    (s_answers s'))))"
      using gr by (simp only: sumAnswerPoints_eq)
    from len each total show ?thesis by blast
  qed
  from stored graded quiz show ?thesis by blast
qed

theorem manual_grading_witness:
  "map_option s_grade (replyData (fst (gradeSubmission exEnv exTeacher 7 11
      \<lparr> gb_grade = None, gb_feedback = None,
        gb_answers = Some [\<lparr> ag_questionId = Some 2, ag_points = Some 3, ag_feedback = None,
                             ag_isCorrect = None \<rparr>] \<rparr> exGradeDb))) = Some (Some 8)
   \<and> map_option s_grade (List.find (\<lambda>s. s_id s = 11 \<and> s_assignment s = 7)
        (submissions (snd (gradeSubmission exEnv exTeacher 7 11
      \<lparr> gb_grade = None, gb_feedback = None,
        gb_answers = Some [\<lparr> ag_questionId = Some 2, ag_points = Some 3, ag_feedback = None,
                             ag_isCorrect = None \<rparr>] \<rparr> exGradeDb)))) = Some (Some 8)
   \<and> map_option s_isGraded (List.find (\<lambda>s. s_id s = 11 \<and> s_assignment s = 7)
        (submissions (snd (gradeSubmission exEnv exTeacher 7 11
      \<lparr> gb_grade = None, gb_feedback = None,
        gb_answers = Some [\<lparr> ag_questionId = Some 2, ag_points = Some 3, ag_feedback = None,
                             ag_isCorrect = None \<rparr>] \<rparr> exGradeDb)))) = Some True
   \<and> submissions (snd (gradeSubmission exEnv exTeacher 7 11
      \<lparr> gb_grade = None, gb_feedback = None,
        gb_answers = Some [\<lparr> ag_questionId = Some 2, ag_points = Some 3, ag_feedback = None,
                             ag_isCorrect = None \<rparr>] \<rparr> exGradeDb)) ! 1 = mkSub 12 7 4 (Some 9)"
proof -
  obtain s' st' where run: "gradeSubmission exEnv exTeacher 7 11
      \<lparr> gb_grade = None, gb_feedback = None,
        gb_answers = Some [\<lparr> ag_questionId = Some 2, ag_points = Some 3, ag_feedback = None,
                             ag_isCorrect = None \<rparr>] \<rparr> exGradeDb = (Reply 200 s', st')"
    by (simp add: gradeSubmission_def authorize_def exTeacher_def exGradeDb_def findById_def
        mkQuiz_def mkSub_def Let_def)
  have found: "List.find (\<lambda>s. s_id s = 11 \<and> s_assignment s = 7) (submissions exGradeDb)
      = Some ((mkSub 11 7 3 (Some 5)) \<lparr> s_answers := [mkStored 1 ''a'' True 5, mkStored 2 ''c'' False 0] \<rparr>)"
    by (simp add: exGradeDb_def mkSub_def)
  have quiz: "findById (assignments exGradeDb) 7 = Some (mkQuiz 7 True False
                    [mkQuestion 1 MultipleChoice ''a'' [] 5, mkQuestion 2 MultipleChoice ''b'' [] 5])"
    by (simp add: exGradeDb_def findById_def mkQuiz_def)
  note all = manual_grading [OF run found]
  note stored = all [THEN conjunct1]
  note others = all [THEN conjunct2, THEN conjunct2, THEN conjunct2, THEN conjunct1,
      rule_format, of 1]
  note graded = all [THEN conjunct2, THEN conjunct2, THEN conjunct2, THEN conjunct2, THEN conjunct1]
  note inst = all [THEN conjunct2, THEN conjunct2, THEN conjunct2, THEN conjunct2, THEN conjunct2,
      THEN conjunct2, rule_format,
      of _ "[\<lparr> ag_questionId = Some 2, ag_points = Some 3, ag_feedback = None, ag_isCorrect = None \<rparr>]",
      OF conjI [OF quiz]]
  have len: "length (s_answers s') = 2"
    using inst by (simp add: mkQuiz_def mkSub_def)
  then obtain x y where xy: "s_answers s' = [x, y]"
    by (auto simp: length_Suc_conv numeral_2_eq_2)
  have "a_points x = Some 5"
    using inst [THEN conjunct2, THEN conjunct1, rule_format, of 0]
    by (simp add: mkQuiz_def mkSub_def mkStored_def xy)
  moreover have "a_points y = Some 3"
    using inst [THEN conjunct2, THEN conjunct1, rule_format, of 1]
    by (simp add: mkQuiz_def mkSub_def mkStored_def xy)
  moreover have "s_grade s' = Some (sum_list (map (\<lambda>x. case a_points x of None \<Rightarrow> 0 | Some p \<Rightarrow> p)
                                                    (s_answers s')))"
    using inst by (simp add: mkQuiz_def)
  ultimately have grade: "s_grade s' = Some 8"
    by (simp add: xy)
  have other: "submissions st' ! 1 = mkSub 12 7 4 (Some 9)"
    using others by (simp add: exGradeDb_def mkSub_def)
  from grade other stored graded show ?thesis
    by (simp add: run replyData_def)
qed

subsection \<open>Statistics\<close>










subsection \<open>Submission and resubmission\<close>

lemma find_first_None: "find_first P xs = None \<longleftrightarrow> (\<forall>x\<in>set xs. \<not> P x)"
  by (induction xs) auto

lemma find_first_append:
  "find_first P (xs @ ys) = (case find_first P xs of None \<Rightarrow> find_first P ys | Some x \<Rightarrow> Some x)"
  by (induction xs) auto

lemma find_first_map:
  "(\<And>x. P (f x) = P x) \<Longrightarrow> find_first P (map f xs) = map_option f (find_first P xs)"
  by (induction xs) auto

lemma findById_id: "findById xs i = Some a \<Longrightarrow> as_id a = i"
  by (auto simp: findById_def dest: find_first_Some)

lemma findSubmission_pair:
  "findSubmission xs i u = Some s \<Longrightarrow> s_assignment s = i \<and> s_student s = u"
  by (auto simp: findSubmission_def dest: find_first_Some)

lemma findSubmission_save:
  assumes "findSubmission xs i u = Some ex"
    and "s_assignment s = i" and "s_student s = u" and "s_id s = s_id ex"
  shows "findSubmission (saveSubmission s xs) i u = Some s"
  using assms
  by (induction xs) (auto simp: findSubmission_def saveSubmission_def split: if_splits)

lemma findSubmission_new:
  assumes "findSubmission xs i u = None" and "s_assignment s = i" and "s_student s = u"
  shows "findSubmission (xs @ [s]) i u = Some s"
  using assms by (simp add: findSubmission_def find_first_append)

lemma resubmit_keys:
  "s_id (resubmit e ex c as fs g) = s_id ex"
  "s_assignment (resubmit e ex c as fs g) = s_assignment ex"
  "s_student (resubmit e ex c as fs g) = s_student ex"
  by (simp_all add: resubmit_def Let_def)

text \<open>What a successful submit has computed.\<close>

lemma submit_reply:
  assumes "submitAssignment e u i b st = (Reply c s, st')"
  shows "\<exists>a answers filesSaved.
           findById (assignments st) i = Some a
         \<and> castAnswers (gr_answers (gradeSubmitted a
               (attachAnswerFiles e (sb_files b) (parseAnswers (sb_answers b))))) = Some answers
         \<and> c = 201
         \<and> (case findSubmission (submissions st) i (u_id u) of
              None \<Rightarrow>
                s = newSubmission e (nextId st) a u (sb_content b) answers filesSaved
                      (gradeSubmitted a (attachAnswerFiles e (sb_files b) (parseAnswers (sb_answers b))))
              \<and> st' = st \<lparr> submissions := submissions st @ [s], nextId := Suc (nextId st) \<rparr>
            | Some ex \<Rightarrow>
                as_allowResubmission a
              \<and> s = resubmit e ex (sb_content b) answers filesSaved
                      (gradeSubmitted a (attachAnswerFiles e (sb_files b) (parseAnswers (sb_answers b))))
              \<and> st' = st \<lparr> submissions := saveSubmission s (submissions st) \<rparr>)"
  using assms
  by (auto simp: submitAssignment_def Let_def split: option.splits if_splits)

lemma submit_stored:
  assumes "submitAssignment e u i b st = (Reply c s, st')"
  shows "findSubmission (submissions st') i (u_id u) = Some s \<and> assignments st' = assignments st"
proof -
  from submit_reply [OF assms] obtain a answers filesSaved where
    a: "findById (assignments st) i = Some a" and
    r: "case findSubmission (submissions st) i (u_id u) of
              None \<Rightarrow>
                s = newSubmission e (nextId st) a u (sb_content b) answers filesSaved
                      (gradeSubmitted a (attachAnswerFiles e (sb_files b) (parseAnswers (sb_answers b))))
              \<and> st' = st \<lparr> submissions := submissions st @ [s], nextId := Suc (nextId st) \<rparr>
            | Some ex \<Rightarrow>
                as_allowResubmission a
              \<and> s = resubmit e ex (sb_content b) answers filesSaved
                      (gradeSubmitted a (attachAnswerFiles e (sb_files b) (parseAnswers (sb_answers b))))
              \<and> st' = st \<lparr> submissions := saveSubmission s (submissions st) \<rparr>"
    by blast
  show ?thesis
  proof (cases "findSubmission (submissions st) i (u_id u)")
    case None
    with r have s: "s = newSubmission e (nextId st) a u (sb_content b) answers filesSaved
                      (gradeSubmitted a (attachAnswerFiles e (sb_files b) (parseAnswers (sb_answers b))))"
      and st': "st' = st \<lparr> submissions := submissions st @ [s], nextId := Suc (nextId st) \<rparr>"
      by simp_all
    have "s_assignment s = i" "s_student s = u_id u"
      by (simp_all add: s newSubmission_def findById_id [OF a])
    with None show ?thesis
      by (simp add: st' findSubmission_new)
  next
    case (Some ex)
    with r have s: "s = resubmit e ex (sb_content b) answers filesSaved
                      (gradeSubmitted a (attachAnswerFiles e (sb_files b) (parseAnswers (sb_answers b))))"
      and st': "st' = st \<lparr> submissions := saveSubmission s (submissions st) \<rparr>"
      by simp_all
    from findSubmission_pair [OF Some]
    have "s_assignment s = i" "s_student s = u_id u" "s_id s = s_id ex"
      by (simp_all add: s resubmit_keys)
    with Some show ?thesis
      by (simp add: st' findSubmission_save)
  qed
qed

lemmas submit_defs =
  submitAssignment_def findById_def findSubmission_def gradeSubmitted_def attachAnswerFiles_def
  attachAnswerFile_def castAnswers_def castAnswer_def newSubmission_def resubmit_def
  saveSubmission_def mergeGraded_def Let_def

lemmas example_defs =
  exEnv_def exStudent_def exQuiz_def exQuizDb_def exBody_def mkQuiz_def mkQuestion_def
  mkAnswer_def mkSub_def

text \<open>
  C4. When a submission of the student for the assignment exists and the assignment does not
  allow resubmission, a submit call answers 400 and leaves the database as it is. Hence, when
  a first submit call of a student has created the submission, a second call for the same pair
  answers 400 and exactly one submission of the pair is stored.
\<close>

theorem resubmission_rejected:
  assumes "findById (assignments st) i = Some a"
    and "\<not> as_allowResubmission a"
  shows "(findSubmission (submissions st) i (u_id u) \<noteq> None \<longrightarrow>
            submitAssignment e u i b st = (Error 400, st))
       \<and> (findSubmission (submissions st) i (u_id u) = None
            \<and> submitAssignment e u i b st = (Reply 201 s, st1) \<longrightarrow>
            submitAssignment e' u i b' st1 = (Error 400, st1)
          \<and> length (filter (\<lambda>x. s_assignment x = i \<and> s_student x = u_id u) (submissions st1)) = 1)"
proof (intro conjI impI)
  assume "findSubmission (submissions st) i (u_id u) \<noteq> None"
  with assms show "submitAssignment e u i b st = (Error 400, st)"
    by (auto simp: submitAssignment_def Let_def)
next
  assume h: "findSubmission (submissions st) i (u_id u) = None
             \<and> submitAssignment e u i b st = (Reply 201 s, st1)"
  then have none: "findSubmission (submissions st) i (u_id u) = None"
    and run: "submitAssignment e u i b st = (Reply 201 s, st1)"
    by simp_all
  from submit_stored [OF run]
  have stored: "findSubmission (submissions st1) i (u_id u) = Some s"
    and same: "assignments st1 = assignments st"
    by simp_all
  from stored same assms show "submitAssignment e' u i b' st1 = (Error 400, st1)"
    by (simp add: submitAssignment_def Let_def)
  from submit_reply [OF run] none
  have subs: "submissions st1 = submissions st @ [s]"
    by auto
  from none have "filter (\<lambda>x. s_assignment x = i \<and> s_student x = u_id u) (submissions st) = []"
    by (simp add: findSubmission_def find_first_None filter_empty_conv)
  moreover from findSubmission_pair [OF stored]
  have "s_assignment s = i \<and> s_student s = u_id u" .
  ultimately
  show "length (filter (\<lambda>x. s_assignment x = i \<and> s_student x = u_id u) (submissions st1)) = 1"
    by (simp add: subs)
qed

theorem resubmission_rejected_witness:
  "fst (submitAssignment exEnv exStudent 7 (exBody ''second'' Absent)
          (snd (submitAssignment exEnv exStudent 7 (exBody ''first'' Absent) (exQuizDb False []))))
     = Error 400
   \<and> snd (submitAssignment exEnv exStudent 7 (exBody ''second'' Absent)
          (snd (submitAssignment exEnv exStudent 7 (exBody ''first'' Absent) (exQuizDb False []))))
     = snd (submitAssignment exEnv exStudent 7 (exBody ''first'' Absent) (exQuizDb False []))
   \<and> length (filter (\<lambda>x. s_assignment x = 7 \<and> s_student x = 3)
        (submissions (snd (submitAssignment exEnv exStudent 7 (exBody ''first'' Absent)
           (exQuizDb False []))))) = 1"
proof -
  obtain s st1 where run: "submitAssignment exEnv exStudent 7 (exBody ''first'' Absent)
      (exQuizDb False []) = (Reply 201 s, st1)"
    by (simp add: submit_defs example_defs)
  have quiz: "findById (assignments (exQuizDb False [])) 7 = Some (exQuiz False)"
    by (simp add: findById_def example_defs)
  have no: "\<not> as_allowResubmission (exQuiz False)"
    by (simp add: example_defs)
  have none: "findSubmission (submissions (exQuizDb False [])) 7 (u_id exStudent) = None"
    by (simp add: findSubmission_def example_defs)
  from resubmission_rejected [OF quiz no, THEN conjunct2, rule_format, OF conjI [OF none run]]
  have second: "submitAssignment exEnv exStudent 7 (exBody ''second'' Absent) st1 = (Error 400, st1)"
    and one: "length (filter (\<lambda>x. s_assignment x = 7 \<and> s_student x = u_id exStudent)
                (submissions st1)) = 1"
    by simp_all
  from submit_stored [OF run]
  have quiz1: "findById (assignments st1) 7 = Some (exQuiz False)"
    and some: "findSubmission (submissions st1) 7 (u_id exStudent) \<noteq> None"
    by (simp_all add: quiz)
  from resubmission_rejected [OF quiz1 no, THEN conjunct1, rule_format, OF some]
  have again: "submitAssignment exEnv exStudent 7 (exBody ''second'' Absent) st1 = (Error 400, st1)" .
  from one have "length (filter (\<lambda>x. s_assignment x = 7 \<and> s_student x = 3) (submissions st1)) = 1"
    by (simp add: exStudent_def)
  with again show ?thesis
    by (simp add: run)
qed




subsection \<open>Automatic grading on submit\<close>

lemma attachAnswerFile_fields:
  "ra_questionId (attachAnswerFile e fs x) = ra_questionId x"
  "ra_answer (attachAnswerFile e fs x) = ra_answer x"
  "ra_answers (attachAnswerFile e fs x) = ra_answers x"
  by (simp_all add: attachAnswerFile_def pushFile_def Let_def split: option.splits)

lemma findAnswer_attach:
  "findAnswer (map (attachAnswerFile e fs) xs) q = map_option (attachAnswerFile e fs) (findAnswer xs q)"
  unfolding findAnswer_def by (rule find_first_map) (simp add: attachAnswerFile_fields)

lemma gradeQuestion_attach:
  "gradeQuestion (map (attachAnswerFile e fs) xs) q = gradeQuestion xs q"
proof -
  have t: "answerText (map_option (attachAnswerFile e fs) r) = answerText r" for r
    by (cases r) (simp_all add: answerText_def attachAnswerFile_fields)
  have l: "answerList (map_option (attachAnswerFile e fs) r) = answerList r" for r
    by (cases r) (simp_all add: answerList_def attachAnswerFile_fields)
  have "gradeOne q (map_option (attachAnswerFile e fs) r) = gradeOne q r" for r
    by (simp add: gradeOne_def t l)
  then show ?thesis
    by (simp add: gradeQuestion_def findAnswer_attach t l Let_def)
qed

lemma autoGradeQuiz_attach:
  "autoGradeQuiz a (map (attachAnswerFile e fs) xs) = autoGradeQuiz a xs"
  by (simp add: autoGradeQuiz_eq gradeQuestion_attach)

lemma castAnswerList_nth:
  "castAnswerList xs = Some ys \<Longrightarrow>
   length ys = length xs \<and> (\<forall>k<length xs. castAnswer (xs ! k) = Some (ys ! k))"
proof (induction xs arbitrary: ys)
  case Nil
  then show ?case by simp
next
  case (Cons x xs)
  then obtain c cs where c: "castAnswer x = Some c" and cs: "castAnswerList xs = Some cs"
    and ys: "ys = c # cs"
    by (auto split: option.splits)
  from Cons.IH [OF cs] show ?case
    by (auto simp: ys c nth_Cons split: nat.splits)
qed

lemma castAnswer_merge:
  assumes "castAnswer (mergeGraded gs x) = Some y"
  shows "ra_questionId x = Some (a_questionId y)
       \<and> (case find_first (\<lambda>g. g_questionId g = a_questionId y) gs of
            None \<Rightarrow> a_isCorrect y = None \<and> a_points y = Some 0
          | Some g \<Rightarrow> a_isCorrect y = g_isCorrect g \<and> a_points y = Some (g_points g))"
proof -
  from assms obtain qid where qid: "ra_questionId x = Some qid" and y: "a_questionId y = qid"
    by (auto simp: castAnswer_def mergeGraded_def Let_def split: option.splits)
  have p: "(\<lambda>g. Some (g_questionId g) = ra_questionId x) = (\<lambda>g. g_questionId g = a_questionId y)"
    by (auto simp: qid y)
  from assms show ?thesis
    by (auto simp: castAnswer_def mergeGraded_def Let_def qid y p split: option.splits)
qed

text \<open>
  What the auto-grading block of submit stores when the quiz has \<open>allowAutomaticGrading\<close> and
  the request carries a list with at least one answer: \<open>isGraded\<close>, the grade, the total
  points (a question with 0 points counting as 1) and the merged answers. A first submission
  has \<open>autoGraded = true\<close>; a resubmission has \<open>gradedAt\<close> set to the time of the call.
\<close>

lemma submit_auto_graded:
  assumes "findById (assignments st) i = Some a"
    and "as_type a = Quiz"
    and "as_allowAutomaticGrading a"
    and "sb_answers b = JsonList xs"
    and "xs \<noteq> []"
    and "submitAssignment e u i b st = (Reply 201 s, st')"
  shows "findSubmission (submissions st') i (u_id u) = Some s
       \<and> s_isGraded s
       \<and> s_grade s = Some (totalScore (autoGradeQuiz a xs))
       \<and> totalScore (autoGradeQuiz a xs) = sum_list (map g_points (gradedAnswers (autoGradeQuiz a xs)))
       \<and> s_totalPoints s
           = Some (sum_list (map (\<lambda>q. if q_points q = 0 then 1 else q_points q) (as_questions a)))
       \<and> length (s_answers s) = length xs
       \<and> (\<forall>k<length xs.
            ra_questionId (xs ! k) = Some (a_questionId (s_answers s ! k))
          \<and> (case find_first (\<lambda>g. g_questionId g = a_questionId (s_answers s ! k))
                    (gradedAnswers (autoGradeQuiz a xs)) of
               None \<Rightarrow> a_isCorrect (s_answers s ! k) = None \<and> a_points (s_answers s ! k) = Some 0
             | Some g \<Rightarrow> a_isCorrect (s_answers s ! k) = g_isCorrect g
                        \<and> a_points (s_answers s ! k) = Some (g_points g)))
       \<and> (findSubmission (submissions st) i (u_id u) = None \<longrightarrow> s_autoGraded s)
       \<and> (findSubmission (submissions st) i (u_id u) \<noteq> None \<longrightarrow> s_gradedAt s = Some (now e))"
proof -
  define xs' where "xs' = map (attachAnswerFile e (sb_files b)) xs"
  define g where "g = gradeSubmitted a (attachAnswerFiles e (sb_files b) (parseAnswers (sb_answers b)))"
  have auto: "autoGradeQuiz a xs' = autoGradeQuiz a xs"
    by (simp add: xs'_def autoGradeQuiz_attach)
  have g: "g = \<lparr> gr_grade = Some (totalScore (autoGradeQuiz a xs)),
                 gr_totalPoints = totalPoints (autoGradeQuiz a xs),
                 gr_autoGraded = True,
                 gr_answers = PList (map (mergeGraded (gradedAnswers (autoGradeQuiz a xs))) xs') \<rparr>"
    using assms(2,3,5)
    by (simp add: g_def assms(4) attachAnswerFiles_def gradeSubmitted_def Let_def
        auto [unfolded xs'_def] xs'_def)
  from submit_reply [OF assms(6)] obtain a2 answers filesSaved where
    a2: "findById (assignments st) i = Some a2" and
    cast2: "castAnswers (gr_answers (gradeSubmitted a2
               (attachAnswerFiles e (sb_files b) (parseAnswers (sb_answers b))))) = Some answers" and
    r2: "case findSubmission (submissions st) i (u_id u) of
              None \<Rightarrow>
                s = newSubmission e (nextId st) a2 u (sb_content b) answers filesSaved
                      (gradeSubmitted a2 (attachAnswerFiles e (sb_files b) (parseAnswers (sb_answers b))))
              \<and> st' = st \<lparr> submissions := submissions st @ [s], nextId := Suc (nextId st) \<rparr>
            | Some ex \<Rightarrow>
                as_allowResubmission a2
              \<and> s = resubmit e ex (sb_content b) answers filesSaved
                      (gradeSubmitted a2 (attachAnswerFiles e (sb_files b) (parseAnswers (sb_answers b))))
              \<and> st' = st \<lparr> submissions := saveSubmission s (submissions st) \<rparr>"
    by blast
  from a2 assms(1) have same: "a2 = a" by simp
  from cast2 have cast: "castAnswers (gr_answers g) = Some answers"
    by (simp only: same g_def)
  from r2 have r: "case findSubmission (submissions st) i (u_id u) of
          None \<Rightarrow> s = newSubmission e (nextId st) a u (sb_content b) answers filesSaved g
        | Some ex \<Rightarrow> s = resubmit e ex (sb_content b) answers filesSaved g"
    unfolding same g_def [symmetric] by (simp split: option.splits)
  have fields: "s_isGraded s \<and> s_grade s = gr_grade g \<and> s_totalPoints s = Some (gr_totalPoints g)
      \<and> s_answers s = answers
      \<and> (findSubmission (submissions st) i (u_id u) = None \<longrightarrow> s_autoGraded s)
      \<and> (findSubmission (submissions st) i (u_id u) \<noteq> None \<longrightarrow> s_gradedAt s = Some (now e))"
    using r by (auto simp: g newSubmission_def resubmit_def Let_def split: option.splits)
  from fields have ans: "s_answers s = answers" by simp
  from cast have cl: "castAnswerList (map (mergeGraded (gradedAnswers (autoGradeQuiz a xs))) xs')
                      = Some answers"
    by (simp add: g castAnswers_def)
  note nth = castAnswerList_nth [OF cl]
  have len: "length (s_answers s) = length xs"
    using nth unfolding ans by (simp add: xs'_def)
  have each: "ra_questionId (xs ! k) = Some (a_questionId (s_answers s ! k))
          \<and> (case find_first (\<lambda>g. g_questionId g = a_questionId (s_answers s ! k))
                    (gradedAnswers (autoGradeQuiz a xs)) of
               None \<Rightarrow> a_isCorrect (s_answers s ! k) = None \<and> a_points (s_answers s ! k) = Some 0
             | Some g \<Rightarrow> a_isCorrect (s_answers s ! k) = g_isCorrect g
                        \<and> a_points (s_answers s ! k) = Some (g_points g))"
    if k: "k < length xs" for k
  proof -
    from nth k have "castAnswer (mergeGraded (gradedAnswers (autoGradeQuiz a xs)) (xs' ! k))
                     = Some (answers ! k)"
      by (simp add: xs'_def)
    from castAnswer_merge [OF this] k show ?thesis
      unfolding ans by (simp add: xs'_def attachAnswerFile_fields)
  qed
  have score: "totalScore (autoGradeQuiz a xs)
               = sum_list (map g_points (gradedAnswers (autoGradeQuiz a xs)))"
    by (simp add: autoGradeQuiz_eq comp_def)
  have total: "s_totalPoints s
           = Some (sum_list (map (\<lambda>q. if q_points q = 0 then 1 else q_points q) (as_questions a)))"
    using fields by (simp add: g autoGradeQuiz_eq pointsOr1_def [abs_def])
  have stored: "findSubmission (submissions st') i (u_id u) = Some s"
    using submit_stored [OF assms(6)] by simp
  from stored fields len each score total show ?thesis
    by (simp add: g)
qed

text \<open>A submit that carries no answers is stored ungraded: the handler grades only when
  \<open>parsedAnswers.length > 0\<close>.\<close>

lemma submit_without_answers:
  "map_option s_isGraded (replyData (fst (submitAssignment exEnv exStudent 7
      (exBody ''no answers'' Absent) (exQuizDb False [])))) = Some False"
  by (simp add: submit_defs example_defs replyData_def)

text \<open>
  Two fields are set by one branch of submit only: a first submission is created without
  \<open>gradedAt\<close>, and a resubmission keeps the \<open>autoGraded\<close> of the stored submission.
\<close>

lemma first_submission_gradedAt:
  assumes "submitAssignment e u i b st = (Reply c s, st')"
    and "findSubmission (submissions st) i (u_id u) = None"
  shows "s_gradedAt s = None"
  using submit_reply [OF assms(1)] assms(2)
  by (auto simp: newSubmission_def)

lemma resubmission_autoGraded:
  assumes "submitAssignment e u i b st = (Reply c s, st')"
    and "findSubmission (submissions st) i (u_id u) = Some ex"
  shows "s_autoGraded s = s_autoGraded ex"
  using submit_reply [OF assms(1)] assms(2)
  by (auto simp: resubmit_def Let_def split: if_splits)

text \<open>
  C3. The claim has every auto-graded submit store \<open>gradedAt\<close> and \<open>autoGraded = true\<close>. A
  first submission with one answer to a quiz with \<open>allowAutomaticGrading\<close> is stored graded
  but without \<open>gradedAt\<close>; the same request as a resubmission over an ungraded submission is
  stored graded but with \<open>autoGraded = false\<close>.
\<close>

theorem auto_graded_submit_missing_fields:
  "map_option s_isGraded (replyData (fst (submitAssignment exEnv exStudent 7
      (exBody [] (JsonList [mkAnswer 21 (Some ''Paris '') None])) (exQuizDb False []))))
     = Some True
   \<and> map_option s_gradedAt (replyData (fst (submitAssignment exEnv exStudent 7
      (exBody [] (JsonList [mkAnswer 21 (Some ''Paris '') None])) (exQuizDb False []))))
     = Some None
   \<and> map_option s_gradedAt (findSubmission (submissions (snd (submitAssignment exEnv exStudent 7
      (exBody [] (JsonList [mkAnswer 21 (Some ''Paris '') None])) (exQuizDb False [])))) 7 3)
     = Some None
   \<and> map_option s_isGraded (replyData (fst (submitAssignment exEnv exStudent 7
      (exBody [] (JsonList [mkAnswer 21 (Some ''Paris '') None]))
      (exQuizDb True [mkSub 11 7 3 None]))))
     = Some True
   \<and> map_option s_autoGraded (replyData (fst (submitAssignment exEnv exStudent 7
      (exBody [] (JsonList [mkAnswer 21 (Some ''Paris '') None]))
      (exQuizDb True [mkSub 11 7 3 None]))))
     = Some False
   \<and> map_option s_autoGraded (findSubmission (submissions (snd (submitAssignment exEnv exStudent 7
      (exBody [] (JsonList [mkAnswer 21 (Some ''Paris '') None]))
      (exQuizDb True [mkSub 11 7 3 None])))) 7 3)
     = Some False"
  by (simp add: submit_defs example_defs replyData_def)

subsection \<open>Questions and total points on create and update\<close>

lemma castQuestionList_nth:
  "castQuestionList i qs = Some cs \<Longrightarrow>
   length cs = length qs \<and> (\<forall>k<length qs. castQuestion (i + k) (qs ! k) = Some (cs ! k))"
proof (induction qs arbitrary: i cs)
  case Nil
  then show ?case by simp
next
  case (Cons q qs)
  then obtain c rest where c: "castQuestion i q = Some c"
    and rest: "castQuestionList (Suc i) qs = Some rest" and cs: "cs = c # rest"
    by (auto split: option.splits)
  from Cons.IH [OF rest] show ?case
    by (auto simp: cs c nth_Cons split: nat.splits)
qed

lemma foldl_sumPoints:
  "foldl (\<lambda>sum q. sum + numOr (rq_points q) 1) acc qs
     = acc + sum_list (map (\<lambda>q. numOr (rq_points q) 1) qs)"
  by (induction qs arbitrary: acc) (simp_all add: add.assoc)

lemma sumPoints_eq: "sumPoints qs = sum_list (map (\<lambda>q. numOr (rq_points q) 1) qs)"
  by (simp add: sumPoints_def foldl_sumPoints)

lemma numOr_idem: "numOr (Some (numOr x 1)) 1 = numOr x 1"
  by (simp add: numOr_def split: option.splits)

lemma normalizeQuestions_nth:
  "k < length qs \<Longrightarrow> normalizeQuestions qs ! k = normalizeQuestion (qs ! k) k"
  by (simp add: normalizeQuestions_def)

lemma length_normalizeQuestions: "length (normalizeQuestions qs) = length qs"
  by (simp add: normalizeQuestions_def)

lemma castQuestion_normalized:
  assumes "castQuestion j (normalizeQuestion raw k) = Some c"
  shows "q_type c = (case rq_type raw of None \<Rightarrow> MultipleChoice | Some t \<Rightarrow> t)
       \<and> q_points c = (case rq_points raw of None \<Rightarrow> 1 | Some p \<Rightarrow> if p = 0 then 1 else p)
       \<and> q_order c = (case rq_order raw of None \<Rightarrow> int k | Some n \<Rightarrow> n)
       \<and> q_correctAnswer c = Some (case rq_correctAnswer raw of None \<Rightarrow> [] | Some s \<Rightarrow> s)
       \<and> q_points c = numOr (rq_points (normalizeQuestion raw k)) 1"
  using assms
  by (auto simp: castQuestion_def normalizeQuestion_def numOr_def strOr_def
      split: option.splits if_splits)

text \<open>The stored questions of a well-formed list and the recomputed total.\<close>

lemma cast_normalized_list:
  assumes "castQuestions j (fst (parseQuestions (JsonList qs))) = Some cs"
  shows "snd (parseQuestions (JsonList qs)) = sum_list (map q_points cs)
       \<and> length cs = length qs
       \<and> (\<forall>k<length qs.
            q_type (cs ! k) = (case rq_type (qs ! k) of None \<Rightarrow> MultipleChoice | Some t \<Rightarrow> t)
          \<and> q_points (cs ! k)
              = (case rq_points (qs ! k) of None \<Rightarrow> 1 | Some p \<Rightarrow> if p = 0 then 1 else p)
          \<and> q_order (cs ! k) = (case rq_order (qs ! k) of None \<Rightarrow> int k | Some n \<Rightarrow> n))"
proof -
  from assms have cl: "castQuestionList j (normalizeQuestions qs) = Some cs"
    by (simp add: castQuestions_def)
  note nth = castQuestionList_nth [OF cl, unfolded length_normalizeQuestions]
  have each: "castQuestion (j + k) (normalizeQuestion (qs ! k) k) = Some (cs ! k)"
    if "k < length qs" for k
    using nth that by (simp add: normalizeQuestions_nth)
  have "map q_points cs = map (\<lambda>q. numOr (rq_points q) 1) (normalizeQuestions qs)"
  proof (rule nth_equalityI)
    show "length (map q_points cs) = length (map (\<lambda>q. numOr (rq_points q) 1) (normalizeQuestions qs))"
      using nth by (simp add: length_normalizeQuestions)
  next
    fix k assume "k < length (map q_points cs)"
    then have k: "k < length qs" using nth by simp
    from castQuestion_normalized [OF each [OF k]] k nth
    show "map q_points cs ! k = map (\<lambda>q. numOr (rq_points q) 1) (normalizeQuestions qs) ! k"
      by (simp add: length_normalizeQuestions normalizeQuestions_nth)
  qed
  then have total: "snd (parseQuestions (JsonList qs)) = sum_list (map q_points cs)"
    by (simp add: sumPoints_eq)
  have "\<forall>k<length qs.
            q_type (cs ! k) = (case rq_type (qs ! k) of None \<Rightarrow> MultipleChoice | Some t \<Rightarrow> t)
          \<and> q_points (cs ! k)
              = (case rq_points (qs ! k) of None \<Rightarrow> 1 | Some p \<Rightarrow> if p = 0 then 1 else p)
          \<and> q_order (cs ! k) = (case rq_order (qs ! k) of None \<Rightarrow> int k | Some n \<Rightarrow> n)"
    using castQuestion_normalized [OF each] by blast
  with total nth show ?thesis by blast
qed

text \<open>What a successful create or update has stored.\<close>

lemma create_reply:
  assumes "createAssignment e u b st = (Reply c a, st')"
  shows "castQuestions (Suc (nextId st))
            (fst (if b_type b = Some Quiz \<and> b_questions b \<noteq> Absent
                  then parseQuestions (b_questions b) else (PList [], 0))) = Some (as_questions a)
       \<and> as_totalPoints a
            = snd (if b_type b = Some Quiz \<and> b_questions b \<noteq> Absent
                   then parseQuestions (b_questions b) else (PList [], 0))"
  using assms
  by (auto simp: createAssignment_def Let_def split: if_splits option.splits)

lemma applyFields_questions:
  "as_questions (applyFields b a) = as_questions a"
  "as_totalPoints (applyFields b a) = as_totalPoints a"
  by (simp_all add: applyFields_def)

lemma applyQuestions_Some:
  assumes "applyQuestions j b a1 = Some a2"
  shows "if b_questions b \<noteq> Absent
         then castQuestions j (fst (parseQuestions (b_questions b))) = Some (as_questions a2)
            \<and> as_totalPoints a2 = snd (parseQuestions (b_questions b))
         else a2 = a1"
  using assms
  by (auto simp: applyQuestions_def Let_def split: if_splits option.splits)

lemma applyAttachments_Some:
  assumes "applyAttachments e b a = Some a'"
  shows "as_questions a' = as_questions a \<and> as_totalPoints a' = as_totalPoints a"
  using assms
  by (auto simp: applyAttachments_def split: if_splits option.splits)

lemma update_reply:
  assumes "updateAssignment e u i b st = (Reply c a, st')"
  shows "\<exists>a0. findById (assignments st) i = Some a0
       \<and> (if b_questions b \<noteq> Absent
           then castQuestions (nextId st) (fst (parseQuestions (b_questions b))) = Some (as_questions a)
              \<and> as_totalPoints a = snd (parseQuestions (b_questions b))
           else as_questions a = as_questions a0 \<and> as_totalPoints a = as_totalPoints a0)"
proof -
  from assms obtain a0 a1 where
    a0: "findById (assignments st) i = Some a0" and
    a1: "applyQuestions (nextId st) b (applyFields b a0) = Some a1" and
    a2: "applyAttachments e b a1 = Some a"
    unfolding updateAssignment_def
    by (auto split: if_splits option.splits)
  from applyQuestions_Some [OF a1] applyAttachments_Some [OF a2] a0 show ?thesis
    by (auto simp: applyFields_questions split: if_splits)
qed

lemma create_wellformed:
  assumes "createAssignment e u b st = (Reply c a, st')"
    and "b_type b = Some Quiz"
    and "b_questions b = JsonList qs"
  shows "as_totalPoints a = sum_list (map q_points (as_questions a))
       \<and> length (as_questions a) = length qs
       \<and> (\<forall>k<length qs.
            q_type (as_questions a ! k) = (case rq_type (qs ! k) of None \<Rightarrow> MultipleChoice | Some t \<Rightarrow> t)
          \<and> q_points (as_questions a ! k)
              = (case rq_points (qs ! k) of None \<Rightarrow> 1 | Some p \<Rightarrow> if p = 0 then 1 else p)
          \<and> q_order (as_questions a ! k) = (case rq_order (qs ! k) of None \<Rightarrow> int k | Some n \<Rightarrow> n))"
proof -
  from create_reply [OF assms(1)] assms(2,3)
  have "castQuestions (Suc (nextId st)) (fst (parseQuestions (JsonList qs))) = Some (as_questions a)"
    and "as_totalPoints a = snd (parseQuestions (JsonList qs))"
    by simp_all
  with cast_normalized_list [of "Suc (nextId st)" qs "as_questions a"] show ?thesis
    by simp
qed

lemma update_wellformed:
  assumes "updateAssignment e u i b st = (Reply c a, st')"
    and "b_questions b = JsonList qs"
  shows "as_totalPoints a = sum_list (map q_points (as_questions a))
       \<and> length (as_questions a) = length qs
       \<and> (\<forall>k<length qs.
            q_type (as_questions a ! k) = (case rq_type (qs ! k) of None \<Rightarrow> MultipleChoice | Some t \<Rightarrow> t)
          \<and> q_points (as_questions a ! k)
              = (case rq_points (qs ! k) of None \<Rightarrow> 1 | Some p \<Rightarrow> if p = 0 then 1 else p)
          \<and> q_order (as_questions a ! k) = (case rq_order (qs ! k) of None \<Rightarrow> int k | Some n \<Rightarrow> n))"
proof -
  from update_reply [OF assms(1)] assms(2)
  have "castQuestions (nextId st) (fst (parseQuestions (JsonList qs))) = Some (as_questions a)"
    and "as_totalPoints a = snd (parseQuestions (JsonList qs))"
    by auto
  with cast_normalized_list [of "nextId st" qs "as_questions a"] show ?thesis
    by simp
qed

text \<open>
  The total equals the sum of the stored points after every create and every update whose
  questions payload is absent, unparsable or a list (for update, when it held before).
\<close>

lemma create_total_invariant:
  assumes "createAssignment e u b st = (Reply c a, st')"
    and "\<forall>v. b_questions b \<noteq> JsonObject v"
  shows "as_totalPoints a = sum_list (map q_points (as_questions a))"
proof (cases "b_type b = Some Quiz \<and> (\<exists>qs. b_questions b = JsonList qs)")
  case True
  then show ?thesis using create_wellformed [OF assms(1)] by blast
next
  case False
  with assms(2) have "fst (if b_type b = Some Quiz \<and> b_questions b \<noteq> Absent
                  then parseQuestions (b_questions b) else (PList [], 0)) = PList []
     \<and> snd (if b_type b = Some Quiz \<and> b_questions b \<noteq> Absent
                  then parseQuestions (b_questions b) else (PList [], 0)) = 0"
    by (cases "b_questions b") auto
  with create_reply [OF assms(1)] show ?thesis
    by (simp add: castQuestions_def)
qed

lemma update_total_invariant:
  assumes "updateAssignment e u i b st = (Reply c a, st')"
    and "\<forall>v. b_questions b \<noteq> JsonObject v"
    and "findById (assignments st) i = Some a0"
    and "as_totalPoints a0 = sum_list (map q_points (as_questions a0))"
  shows "as_totalPoints a = sum_list (map q_points (as_questions a))"
proof (cases "b_questions b")
  case Absent
  with update_reply [OF assms(1)] assms(3,4) show ?thesis by auto
next
  case InvalidJson
  with update_reply [OF assms(1)] show ?thesis by (auto simp: castQuestions_def)
next
  case (JsonList qs)
  then show ?thesis using update_wellformed [OF assms(1)] by blast
next
  case (JsonObject v)
  with assms(2) show ?thesis by simp
qed

text \<open>An unparsable questions string is swallowed: the questions are empty and the total 0.\<close>

lemma create_invalid_json:
  assumes "authorize [Teacher, Admin] u" and "strOr (b_title b) [] \<noteq> []"
    and "b_questions b = InvalidJson" and "b_files b = []"
  shows "\<exists>a st'. createAssignment e u b st = (Reply 201 a, st')
           \<and> as_questions a = [] \<and> as_totalPoints a = 0"
  using assms
  by (simp add: createAssignment_def castQuestions_def Let_def)

lemma update_invalid_json:
  assumes "updateAssignment e u i b st = (Reply c a, st')" and "b_questions b = InvalidJson"
  shows "as_questions a = [] \<and> as_totalPoints a = 0"
  using update_reply [OF assms(1)] assms(2)
  by (auto simp: castQuestions_def)

lemmas assignment_defs =
  createAssignment_def updateAssignment_def applyFields_def applyQuestions_def
  applyAttachments_def castQuestions_def castQuestion_def authorize_def findById_def
  saveAssignment_def strOr_def replyData_def Let_def

text \<open>
  C8. The total equals the sum of the stored question points after every create and update
  with a well-formed list (\<open>create_wellformed\<close>, \<open>update_wellformed\<close>), but not for every
  assignment that create produces: a questions payload that parses to a single object, not
  to a list, is stored as one question while the total stays 0.
\<close>

theorem create_object_payload_total:
  "map_option as_totalPoints (replyData (fst
      (createAssignment exEnv exTeacher exObjectBody (exQuizDb False [])))) = Some 0
   \<and> map_option (\<lambda>a. map q_points (as_questions a)) (replyData (fst
      (createAssignment exEnv exTeacher exObjectBody (exQuizDb False [])))) = Some [7]"
  by (simp add: assignment_defs exTeacher_def exObjectBody_def exQuizDb_def exEnv_def)

text \<open>
  C9. An unparsable questions string is stored as an empty list with total 0
  (\<open>create_invalid_json\<close>, \<open>update_invalid_json\<close>), but a payload that parses to a single
  object is not: update stores it as one question, with total 0.
\<close>

theorem update_object_payload_questions:
  "map_option (\<lambda>a. map q_question (as_questions a)) (replyData (fst
      (updateAssignment exEnv exTeacher 7 exObjectBody (exQuizDb False [])))) = Some [''Q1'']
   \<and> map_option as_totalPoints (replyData (fst
      (updateAssignment exEnv exTeacher 7 exObjectBody (exQuizDb False [])))) = Some 0"
  by (simp add: assignment_defs exTeacher_def exObjectBody_def exQuizDb_def exQuiz_def mkQuiz_def
      mkQuestion_def exEnv_def)

subsection \<open>Empty correct answer\<close>

lemma castQuestion_normalized_key:
  assumes "castQuestion j (normalizeQuestion raw k) = Some c"
  shows "q_correctAnswer c = Some (case rq_correctAnswer raw of None \<Rightarrow> [] | Some s \<Rightarrow> s)"
  using assms
  by (auto simp: castQuestion_def normalizeQuestion_def strOr_def split: option.splits if_splits)

text \<open>
  C10 (amended). When the correct answer of a multiple-choice or identification question is
  the empty string, a student who submitted no answer with the id of the question, or whose
  first answer with that id has no string or consists of white space only, is graded correct
  and is awarded \<open>question.points\<close>, or 1 point when \<open>question.points\<close> is 0. The empty string
  is what normalisation stores when the creator gives no correct answer.
\<close>

theorem blank_answer_matches_empty_key:
  assumes "i < length (as_questions a)"
    and "q = as_questions a ! i"
    and "g = gradedAnswers (autoGradeQuiz a answers) ! i"
    and "q_type q = MultipleChoice \<or> q_type q = Identification"
    and "q_correctAnswer q = Some []"
    and "List.find (\<lambda>x. ra_questionId x = Some (q_id q)) answers = None
         \<or> (\<exists>ans. List.find (\<lambda>x. ra_questionId x = Some (q_id q)) answers = Some ans
               \<and> (ra_answer ans = None
                   \<or> (\<exists>s. ra_answer ans = Some s \<and> (\<forall>c\<in>set s. isWhiteSpace c))))"
  shows "g_questionId g = q_id q
       \<and> g_isCorrect g = Some True
       \<and> g_points g = (if q_points q = 0 then 1 else q_points q)
       \<and> (rq_correctAnswer raw = None \<and> castQuestion j (normalizeQuestion raw k) = Some q'
            \<longrightarrow> q_correctAnswer q' = Some [])"
proof -
  have blank: "trim (toLowerCase (answerText (findAnswer answers q))) = []"
    using assms(6) trim_blank [of "[]"]
    by (auto simp: answerText_def strOr_empty trim_blank findAnswer_find)
  have key: "trim (toLowerCase []) = []"
    using trim_blank [of "[]"] by simp
  have g: "g = gradeQuestion answers q"
    using assms(1,2,3) by (simp add: graded_nth)
  then have "g_isCorrect g = Some True \<and> g_points g = (if q_points q = 0 then 1 else q_points q)"
    using assms(4,5) blank key
    by (auto simp: gradeQuestion_def gradeOne_def pointsOr1_def String_def strOr_empty Let_def)
  moreover have "g_questionId g = q_id q"
    by (simp add: g gradeQuestion_def Let_def)
  moreover have "rq_correctAnswer raw = None \<and> castQuestion j (normalizeQuestion raw k) = Some q'
            \<longrightarrow> q_correctAnswer q' = Some []"
    using castQuestion_normalized_key [of j raw k q'] by auto
  ultimately show ?thesis by blast
qed

text \<open>
  In the witness the student answers the second question only and sends a space and a
  no-break space for the third.
\<close>

theorem blank_answer_matches_empty_key_witness:
  "g_isCorrect (gradedAnswers (autoGradeQuiz exBlankQuiz exBlankAnswers) ! 0) = Some True
   \<and> g_points (gradedAnswers (autoGradeQuiz exBlankQuiz exBlankAnswers) ! 0) = 5
   \<and> g_isCorrect (gradedAnswers (autoGradeQuiz exBlankQuiz exBlankAnswers) ! 2) = Some True
   \<and> g_points (gradedAnswers (autoGradeQuiz exBlankQuiz exBlankAnswers) ! 2) = 2"
proof -
  have omitted: "List.find (\<lambda>x. ra_questionId x = Some (q_id (as_questions exBlankQuiz ! 0)))
                   exBlankAnswers = None
         \<or> (\<exists>ans. List.find (\<lambda>x. ra_questionId x = Some (q_id (as_questions exBlankQuiz ! 0)))
                     exBlankAnswers = Some ans
               \<and> (ra_answer ans = None
                   \<or> (\<exists>s. ra_answer ans = Some s \<and> (\<forall>c\<in>set s. isWhiteSpace c))))"
    by (simp add: exBlankQuiz_def exBlankAnswers_def mkQuiz_def mkQuestion_def mkAnswer_def)
  have blank: "List.find (\<lambda>x. ra_questionId x = Some (q_id (as_questions exBlankQuiz ! 2)))
                   exBlankAnswers = None
         \<or> (\<exists>ans. List.find (\<lambda>x. ra_questionId x = Some (q_id (as_questions exBlankQuiz ! 2)))
                     exBlankAnswers = Some ans
               \<and> (ra_answer ans = None
                   \<or> (\<exists>s. ra_answer ans = Some s \<and> (\<forall>c\<in>set s. isWhiteSpace c))))"
    by (simp add: exBlankQuiz_def exBlankAnswers_def mkQuiz_def mkQuestion_def mkAnswer_def
        isWhiteSpace_def)
  from blank_answer_matches_empty_key
         [of 0 exBlankQuiz _ _ exBlankAnswers, OF _ refl refl _ _ omitted]
       blank_answer_matches_empty_key
         [of 2 exBlankQuiz _ _ exBlankAnswers, OF _ refl refl _ _ blank]
  show ?thesis
    by (simp add: exBlankQuiz_def mkQuiz_def mkQuestion_def)
qed

text \<open>
  The claim as stated, with the full \<open>question.points\<close>, fails for a question whose points
  are 0: the omitted answer earns 1 point.
\<close>

theorem blank_answer_matches_empty_key_counterexample:
  "g_isCorrect (gradedAnswers (autoGradeQuiz
       (mkQuiz 7 True False [mkQuestion 21 Identification [] [] 0]) []) ! 0) = Some True
   \<and> g_points (gradedAnswers (autoGradeQuiz
       (mkQuiz 7 True False [mkQuestion 21 Identification [] [] 0]) []) ! 0) = 1
   \<and> q_points (mkQuestion 21 Identification [] [] 0) = 0"
  by (simp add: autoGradeQuiz_eq gradeQuestion_def gradeOne_def findAnswer_def answerText_def
      strOr_def String_def pointsOr1_def grader_example_defs)

end
